theory Spec2Isabelle
  imports Main
begin

section \<open>The Monaco editor component of nteract\<close>

text \<open>
  A shallow embedding of the React component \<^verbatim>\<open>MonacoEditor\<close>
  (\<^verbatim>\<open>class MonacoEditor extends React.Component<IMonacoProps>\<close>).
  The component instance, the part of the Monaco registry and of the DOM it reads, and the
  sequence of calls it makes on the native editor and on the host's callbacks are one
  record that every method takes and returns.
\<close>

subsection \<open>Values of the Monaco API and of the DOM\<close>

text \<open>\<^verbatim>\<open>monaco.editor.IDimension\<close>; pixel counts are integers here.\<close>

record dimension =
  width :: int
  height :: int

text \<open>\<^verbatim>\<open>monaco.IPosition\<close>: line number and column.\<close>

type_synonym position = "nat \<times> nat"

text \<open>
  \<^verbatim>\<open>monaco.Uri\<close>. \<^verbatim>\<open>FileUri id\<close> is \<^verbatim>\<open>monaco.Uri.file(id)\<close>,
  \<^verbatim>\<open>CellUri\<close> is the uri of a notebook cell, and \<^verbatim>\<open>OtherUri\<close> is any other
  identifier a caller passes as \<^verbatim>\<open>modelUri\<close>.
\<close>

datatype uri = FileUri string | CellUri string string string | OtherUri string

text \<open>
  Modelled from the spec: \<^verbatim>\<open>DocumentUri.createCellUri\<close> of the module
  \<^verbatim>\<open>./documentUri\<close>, which is not among the sources. The spec addresses a document
  model "by a composite identity of (content-reference, cell-id, language)"; the three
  components are kept as they are.
\<close>

definition createCellUri :: "string \<Rightarrow> string \<Rightarrow> string \<Rightarrow> uri" where
  "createCellUri ref cellId lang = CellUri ref cellId lang"

text \<open>\<^verbatim>\<open>monaco.editor.EndOfLineSequence\<close>.\<close>

datatype eol = LF | CRLF

text \<open>
  A text model of the Monaco registry: its text, its language and its line-ending
  setting. How Monaco rewrites the buffer when the setting changes is not part of the
  component and is not modelled.
\<close>

record text_model =
  m_value :: string
  m_languageId :: string
  m_eol :: eol

text \<open>
  The native editor \<^verbatim>\<open>monaco.editor.IStandaloneCodeEditor\<close>: the model it shows (by
  uri), its cursor, whether it holds widget focus and the content height it measures.
\<close>

record native_editor =
  e_model :: "uri option"
  e_position :: "position option"
  e_hasWidgetFocus :: bool
  e_contentHeight :: int

text \<open>
  The element \<^verbatim>\<open>editorContainerRef.current\<close>: the measurements the component reads
  (\<^verbatim>\<open>offsetParent\<close> is kept as "is not null") and the identity of its parent, the
  \<^verbatim>\<open>div.monaco-container\<close> that \<^verbatim>\<open>render\<close> wraps around it.
\<close>

record container =
  offsetParent :: bool
  offsetHeight :: int
  clientWidth :: int
  clientHeight :: int
  parentElement :: "nat option"

text \<open>
  \<^verbatim>\<open>ClientRect\<close> and the elements below a \<^verbatim>\<open>div.monaco-container\<close> that the
  parameter-hint code reads and writes: the \<^verbatim>\<open>class\<close> attribute, the inline
  \<^verbatim>\<open>style.visibility\<close> and the bounding box.
\<close>

record client_rect =
  rect_left :: int
  rect_right :: int
  rect_top :: int
  rect_bottom :: int

record element =
  className :: string
  style_visibility :: string
  boundingClientRect :: client_rect

text \<open>
  A \<^verbatim>\<open>div.monaco-container\<close> of the page with the elements below it, in document
  order. The document is the list of these containers, in document order.
\<close>

record monaco_container =
  node :: nat
  descendants :: "element list"

subsection \<open>Props\<close>

text \<open>
  \<^verbatim>\<open>IMonacoProps = IMonacoComponentProps & IMonacoConfiguration\<close>. An optional boolean
  is a \<open>bool option\<close> (\<open>None\<close> is \<^verbatim>\<open>undefined\<close>). A callback prop is modelled by
  whether the host supplied it; each call of it is recorded in the trace, and what the
  host's code does in the call is not part of the component: a callback leaves the editor,
  the registry and the page as they are.
  \<^verbatim>\<open>id\<close> and \<^verbatim>\<open>value\<close> carry a suffix, being names of HOL.
\<close>

record props =
  id_prop :: string
  contentRef :: string
  theme :: string
  readOnly :: "bool option"
  value_prop :: string
  editorFocused :: "bool option"
  modelUri :: "uri option"
  enableCompletion :: "bool option"
  shouldRegisterDefaultCompletion :: "bool option"
  onCursorPositionChange :: bool
  onRegisterDocumentFormattingEditProvider :: bool
  enableFormatting :: "bool option"
  onRegisterCompletionProvider :: bool
  language :: string
  lineNumbers :: "bool option"
  batchLayoutChanges :: "bool option"
  shouldUpdateLayoutWhenNotFocused :: "bool option"
  skipLayoutWhenNotInViewport :: "bool option"
  skipLayoutWhenHidden :: "bool option"
  autoFitContentHeight :: "bool option"
  maxContentHeight :: "int option"
  initialDimension :: "dimension option"
  shortcutsOptions :: bool
  shortcutsHandler :: bool
  cursorPositionHandler :: bool
  commandHandler :: bool
  onDidCreateEditor :: bool

text \<open>JavaScript truthiness of an optional boolean and of a string.\<close>

definition truthy :: "bool option \<Rightarrow> bool" where
  "truthy b = (b = Some True)"

definition truthy_str :: "string \<Rightarrow> bool" where
  "truthy_str s = (s \<noteq> [])"

subsection \<open>Calls, deferred tasks and errors\<close>

text \<open>
  Every call the component makes on the native editor, on the Monaco registry, on the
  observers and schedulers of its sibling modules, and on the host's callbacks.
\<close>

datatype event =
    CreateModel uri string string
  | SetEOL uri eol
  | ModelUpdateOptions uri
  | CreateEditor "uri option"
  | SetModel uri
  | DisposeModel uri
  | DisposeEditor
  | SetValue string
  | SetPosition position
  | Focus
  | ToggleEditorOptions bool
  | UpdateOptions "bool option" "string option"
  | Layout dimension
  | ScheduleEditorForLayout "dimension option"
  | IntersectionObserve
  | IntersectionUnobserve
  | ResizeObserve
  | ResizeUnobserve
  | OnRegisterCompletionProvider string
  | RegisterDefaultCompletionProvider string
  | OnRegisterDocumentFormattingEditProvider string
  | SetChannels
  | OnDidCreateEditor
  | ShortcutsHandler
  | CommandHandler
  | CursorPositionHandler
  | OnCursorPositionChange
  | AddCursorListener
  | DisposeCursorListener
  | AddMouseMoveListener
  | DisposeMouseMoveListener
  | AddEditorListeners
  | SetTimeout uri
  | ConsoleError

text \<open>The native calls of teardown that may throw, and the error they throw.\<close>

datatype native_op = ModelDispose | EditorDispose | MouseMoveListenerDispose

datatype js_error = NativeError native_op

subsection \<open>The component instance and what it touches\<close>

text \<open>
  The fields of the class come first, under their names. Then: \<open>models\<close>, the registry
  behind \<^verbatim>\<open>monaco.editor.getModel\<close>; \<open>defaultEOL\<close>, the line ending Monaco gives a
  fresh model; \<open>freshEditor\<close>, the editor \<^verbatim>\<open>monaco.editor.create\<close> returns, before
  its model is set; \<open>resizeObserved\<close>, whether \<^verbatim>\<open>resizeObserver\<close> observes the container; \<open>timers\<close>, the
  models whose disposal \<^verbatim>\<open>setTimeout(..., 0)\<close> has queued; \<open>throwing\<close>, the native
  teardown calls that throw; \<open>document\<close>, the page; \<open>trace\<close>, the calls made so far, oldest
  first.
\<close>

record monaco_editor =
  props :: props
  editor :: "native_editor option"
  editorContainerRef :: "container option"
  cursorPositionListener :: bool
  mouseMoveListener :: bool
  intersectObservation :: bool
  isInViewport :: bool
  deferredLayoutRequest :: bool
  deferredLayoutDimension :: "dimension option"
  models :: "uri \<rightharpoonup> text_model"
  defaultEOL :: eol
  freshEditor :: native_editor
  resizeObserved :: bool
  timers :: "uri list"
  throwing :: "native_op set"
  document :: "monaco_container list"
  trace :: "event list"

definition emit :: "event \<Rightarrow> monaco_editor \<Rightarrow> monaco_editor" where
  "emit ev s = s\<lparr>trace := trace s @ [ev]\<rparr>"

text \<open>How many of the calls made so far satisfy \<open>P\<close>.\<close>

definition calls :: "(event \<Rightarrow> bool) \<Rightarrow> monaco_editor \<Rightarrow> nat" where
  "calls P s = length (filter P (trace s))"

fun is_Layout :: "event \<Rightarrow> bool" where
  "is_Layout (Layout d) = True"
| "is_Layout ev = False"

subsection \<open>Layout\<close>

definition readEditorDomSize :: "monaco_editor \<Rightarrow> dimension option" where
  "readEditorDomSize s =
     (case editor s of
        None \<Rightarrow> None
      | Some e \<Rightarrow>
          (case editorContainerRef s of
             None \<Rightarrow> None
           | Some c \<Rightarrow> Some \<lparr>width = clientWidth c, height = clientHeight c\<rparr>))"

text \<open>
  The editor is live wherever \<open>getLayoutDimension\<close> gets past its first test, so
  \<^verbatim>\<open>this.editor?.getContentHeight()\<close> is the content height of that editor.
\<close>

definition getLayoutDimension :: "monaco_editor \<Rightarrow> dimension option" where
  "getLayoutDimension s =
     (case readEditorDomSize s of
        None \<Rightarrow> None
      | Some dim \<Rightarrow>
          if width dim = 0 \<or> height dim = 0 then None
          else
            let dim1 =
                  (if (case autoFitContentHeight (props s) of None \<Rightarrow> True | Some b \<Rightarrow> b)
                   then (case editor s of
                           None \<Rightarrow> dim
                         | Some e \<Rightarrow>
                             if e_contentHeight e \<noteq> 0
                             then dim\<lparr>height := e_contentHeight e\<rparr> else dim)
                   else dim);
                dim2 =
                  (case maxContentHeight (props s) of
                     None \<Rightarrow> dim1
                   | Some m \<Rightarrow>
                       if m \<noteq> 0 then dim1\<lparr>height := min (height dim1) m\<rparr> else dim1)
            in Some dim2)"

definition isContainerHidden :: "monaco_editor \<Rightarrow> bool" where
  "isContainerHidden s =
     (case editorContainerRef s of
        None \<Rightarrow> True
      | Some c \<Rightarrow> \<not> offsetParent c \<or> offsetHeight c = 0)"

definition layout :: "dimension \<Rightarrow> monaco_editor \<Rightarrow> monaco_editor" where
  "layout d s = (case editor s of None \<Rightarrow> s | Some e \<Rightarrow> emit (Layout d) s)"

definition shouldLayout :: "monaco_editor \<Rightarrow> bool" where
  "shouldLayout s =
     (if truthy (skipLayoutWhenHidden (props s)) then \<not> isContainerHidden s else True)"

text \<open>
  \<^verbatim>\<open>scheduleEditorForLayout\<close> (module \<^verbatim>\<open>./layoutSchedule\<close>) is recorded as a call;
  what the scheduler does later is outside this component.
\<close>

definition scheduleEditorForLayout :: "dimension option \<Rightarrow> monaco_editor \<Rightarrow> monaco_editor" where
  "scheduleEditorForLayout dimension s = emit (ScheduleEditorForLayout dimension) s"

definition requestLayout :: "dimension option \<Rightarrow> monaco_editor \<Rightarrow> monaco_editor" where
  "requestLayout dimension s =
     (if editor s = None then s
      else if \<not> isInViewport s
      then s\<lparr>deferredLayoutDimension := dimension, deferredLayoutRequest := True\<rparr>
      else if \<not> shouldLayout s then s
      else if batchLayoutChanges (props s) = Some True
      then scheduleEditorForLayout dimension s
      else (case (case dimension of None \<Rightarrow> getLayoutDimension s | Some d \<Rightarrow> Some d) of
              None \<Rightarrow> s
            | Some d \<Rightarrow> layout d s))"

definition onIntersecting :: "bool \<Rightarrow> monaco_editor \<Rightarrow> monaco_editor" where
  "onIntersecting isIntersecting s =
     (if isInViewport s \<noteq> isIntersecting
      then
        let s1 = s\<lparr>isInViewport := isIntersecting\<rparr>
        in if isInViewport s1 \<and> deferredLayoutRequest s1
           then requestLayout (deferredLayoutDimension s1) (s1\<lparr>deferredLayoutRequest := False\<rparr>)
           else s1
      else s)"

definition updateIntersectRegistration :: "monaco_editor \<Rightarrow> monaco_editor" where
  "updateIntersectRegistration s =
     (if truthy (skipLayoutWhenNotInViewport (props s))
      then
        (if editorContainerRef s \<noteq> None \<and> \<not> intersectObservation s
         then emit IntersectionObserve (s\<lparr>isInViewport := False, intersectObservation := True\<rparr>)
         else s)
      else
        (if intersectObservation s
         then (emit IntersectionUnobserve s)\<lparr>intersectObservation := False, isInViewport := True\<rparr>
         else s\<lparr>isInViewport := True\<rparr>))"

subsection \<open>The native editor and the registry of models\<close>

text \<open>
  What the component reads from the native editor. \<^verbatim>\<open>getModel()\<close> answers with the
  model's uri, which stands for the model object.
\<close>

definition editor_getModel :: "monaco_editor \<Rightarrow> uri option" where
  "editor_getModel s =
     (case editor s of
        None \<Rightarrow> None
      | Some e \<Rightarrow>
          (case e_model e of
             None \<Rightarrow> None
           | Some u \<Rightarrow> (case models s u of None \<Rightarrow> None | Some m \<Rightarrow> Some u)))"

definition editor_getValue :: "monaco_editor \<Rightarrow> string" where
  "editor_getValue s =
     (case editor_getModel s of
        None \<Rightarrow> []
      | Some u \<Rightarrow> (case models s u of None \<Rightarrow> [] | Some m \<Rightarrow> m_value m))"

definition getLanguageId :: "uri \<Rightarrow> monaco_editor \<Rightarrow> string" where
  "getLanguageId u s = (case models s u of None \<Rightarrow> [] | Some m \<Rightarrow> m_languageId m)"

definition editor_getPosition :: "monaco_editor \<Rightarrow> position option" where
  "editor_getPosition s = (case editor s of None \<Rightarrow> None | Some e \<Rightarrow> e_position e)"

definition editor_hasWidgetFocus :: "monaco_editor \<Rightarrow> bool" where
  "editor_hasWidgetFocus s = (case editor s of None \<Rightarrow> False | Some e \<Rightarrow> e_hasWidgetFocus e)"

text \<open>
  What the component does to the native editor. Each call is recorded; its effect on
  what the component can read back is the least Monaco documents: \<^verbatim>\<open>setValue\<close>
  replaces the text of the current model and \<^verbatim>\<open>setModel\<close> shows another model, both
  with the cursor back at the first position; \<^verbatim>\<open>setPosition\<close> moves the cursor;
  \<^verbatim>\<open>focus\<close> takes widget focus.
\<close>

definition upd_editor :: "(native_editor \<Rightarrow> native_editor) \<Rightarrow> monaco_editor \<Rightarrow> monaco_editor" where
  "upd_editor f s = s\<lparr>editor := map_option f (editor s)\<rparr>"

definition editor_setValue :: "string \<Rightarrow> monaco_editor \<Rightarrow> monaco_editor" where
  "editor_setValue v s =
     emit (SetValue v)
       (case editor_getModel s of
          None \<Rightarrow> s
        | Some u \<Rightarrow>
            upd_editor (\<lambda>e. e\<lparr>e_position := Some (1, 1)\<rparr>)
              (s\<lparr>models := (models s)(u := map_option (\<lambda>m. m\<lparr>m_value := v\<rparr>) (models s u))\<rparr>))"

definition editor_setModel :: "uri \<Rightarrow> monaco_editor \<Rightarrow> monaco_editor" where
  "editor_setModel u s =
     emit (SetModel u) (upd_editor (\<lambda>e. e\<lparr>e_model := Some u, e_position := Some (1, 1)\<rparr>) s)"

definition editor_setPosition :: "position \<Rightarrow> monaco_editor \<Rightarrow> monaco_editor" where
  "editor_setPosition p s = emit (SetPosition p) (upd_editor (\<lambda>e. e\<lparr>e_position := Some p\<rparr>) s)"

definition editor_focus :: "monaco_editor \<Rightarrow> monaco_editor" where
  "editor_focus s = emit Focus (upd_editor (\<lambda>e. e\<lparr>e_hasWidgetFocus := True\<rparr>) s)"

definition editor_updateOptions :: "bool option \<Rightarrow> string option \<Rightarrow> monaco_editor \<Rightarrow> monaco_editor" where
  "editor_updateOptions ro th s = emit (UpdateOptions ro th) s"

text \<open>
  \<^verbatim>\<open>monaco.editor.createModel(value, language, uri)\<close>, \<^verbatim>\<open>model.setEOL\<close> and
  \<^verbatim>\<open>monaco.editor.create\<close> with the \<^verbatim>\<open>model\<close> option.
\<close>

definition createModel :: "string \<Rightarrow> string \<Rightarrow> uri \<Rightarrow> monaco_editor \<Rightarrow> monaco_editor" where
  "createModel v lang u s =
     emit (CreateModel u v lang)
       (s\<lparr>models := (models s)(u \<mapsto> \<lparr>m_value = v, m_languageId = lang, m_eol = defaultEOL s\<rparr>)\<rparr>)"

definition model_setEOL :: "uri \<Rightarrow> eol \<Rightarrow> monaco_editor \<Rightarrow> monaco_editor" where
  "model_setEOL u l s =
     emit (SetEOL u l)
       (s\<lparr>models := (models s)(u := map_option (\<lambda>m. m\<lparr>m_eol := l\<rparr>) (models s u))\<rparr>)"

definition monaco_create :: "uri \<Rightarrow> monaco_editor \<Rightarrow> monaco_editor" where
  "monaco_create u s =
     emit (CreateEditor (Some u)) (s\<lparr>editor := Some ((freshEditor s)\<lparr>e_model := Some u\<rparr>)\<rparr>)"

text \<open>
  \<^verbatim>\<open>model.dispose()\<close> and \<^verbatim>\<open>editor.dispose()\<close>: the call is recorded, then it either
  throws or takes effect. A disposed model leaves the registry, and an editor showing it
  shows no model any more.
\<close>

definition model_dispose :: "uri \<Rightarrow> monaco_editor \<Rightarrow> js_error option \<times> monaco_editor" where
  "model_dispose u s =
     (let s1 = emit (DisposeModel u) s
      in if ModelDispose \<in> throwing s1 then (Some (NativeError ModelDispose), s1)
         else (None,
               upd_editor (\<lambda>e. if e_model e = Some u then e\<lparr>e_model := None\<rparr> else e)
                 (s1\<lparr>models := (models s1)(u := None)\<rparr>)))"


text \<open>
  \<^verbatim>\<open>setTimeout(() => model.dispose(), 0)\<close> queues the disposal; \<open>run_timers\<close> is the
  later turn of the event loop that runs what is queued. An error thrown there reaches no
  caller of the component.
\<close>

definition setTimeout_dispose :: "uri \<Rightarrow> monaco_editor \<Rightarrow> monaco_editor" where
  "setTimeout_dispose u s = emit (SetTimeout u) (s\<lparr>timers := timers s @ [u]\<rparr>)"

definition run_timer :: "uri \<Rightarrow> monaco_editor \<Rightarrow> monaco_editor" where
  "run_timer u s = snd (model_dispose u s)"

definition run_timers :: "monaco_editor \<Rightarrow> monaco_editor" where
  "run_timers s = fold run_timer (timers s) (s\<lparr>timers := []\<rparr>)"

subsection \<open>Providers, listeners and options\<close>

text \<open>
  \<^verbatim>\<open>registerDefaultCompletionProvider\<close> hands \<^verbatim>\<open>monaco.languages.onLanguage\<close> a
  callback that registers the kernel-based \<^verbatim>\<open>completionProvider\<close>.
\<close>

definition registerDefaultCompletionProvider :: "string \<Rightarrow> monaco_editor \<Rightarrow> monaco_editor" where
  "registerDefaultCompletionProvider lang s = emit (RegisterDefaultCompletionProvider lang) s"

definition registerCompletionProvider :: "monaco_editor \<Rightarrow> monaco_editor" where
  "registerCompletionProvider s =
     (if truthy (enableCompletion (props s)) \<and> truthy_str (language (props s))
      then
        (if onRegisterCompletionProvider (props s)
         then emit (OnRegisterCompletionProvider (language (props s))) s
         else if truthy (shouldRegisterDefaultCompletion (props s))
         then registerDefaultCompletionProvider (language (props s)) s
         else s)
      else s)"

definition registerDocumentFormatter :: "monaco_editor \<Rightarrow> monaco_editor" where
  "registerDocumentFormatter s =
     (if truthy (enableFormatting (props s)) \<and> truthy_str (language (props s))
      then
        (if onRegisterDocumentFormattingEditProvider (props s)
         then emit (OnRegisterDocumentFormattingEditProvider (language (props s))) s
         else s)
      else s)"

definition registerCursorListener :: "monaco_editor \<Rightarrow> monaco_editor" where
  "registerCursorListener s =
     (if editor s \<noteq> None \<and> onCursorPositionChange (props s)
      then
        let s1 = emit OnCursorPositionChange s
        in if \<not> cursorPositionListener s1
           then (emit AddCursorListener s1)\<lparr>cursorPositionListener := True\<rparr>
           else s1
      else s)"

definition unregisterCursorListener :: "monaco_editor \<Rightarrow> monaco_editor" where
  "unregisterCursorListener s =
     (if cursorPositionListener s
      then (emit DisposeCursorListener s)\<lparr>cursorPositionListener := False\<rparr>
      else s)"

definition toggleEditorOptions :: "bool \<Rightarrow> monaco_editor \<Rightarrow> monaco_editor" where
  "toggleEditorOptions isActive s =
     (if editor s \<noteq> None then emit (ToggleEditorOptions isActive) s else s)"

subsection \<open>Lifecycle\<close>

text \<open>
  \<^verbatim>\<open>componentDidMount\<close>. The listeners on the container (\<^verbatim>\<open>undo\<close>, \<^verbatim>\<open>redo\<close>) and on
  the editor (content size, content, focus, blur) are registered in one recorded step.
  The caller's \<^verbatim>\<open>options\<close> overlay is of type \<^verbatim>\<open>IEditorOptions\<close>, which has no model
  and is not modelled.
\<close>

definition componentDidMount :: "monaco_editor \<Rightarrow> monaco_editor" where
  "componentDidMount s =
     (case editorContainerRef s of
        None \<Rightarrow> s
      | Some c \<Rightarrow>
          let s1 = updateIntersectRegistration s;
              s2 = registerCompletionProvider s1;
              s3 = registerDocumentFormatter s2;
              uri = (case modelUri (props s3) of
                       Some u \<Rightarrow> u
                     | None \<Rightarrow> FileUri (id_prop (props s3)));
              s4 = (if models s3 uri = None
                    then createModel (value_prop (props s3)) (language (props s3)) uri s3
                    else s3);
              s5 = model_setEOL uri LF s4;
              s6 = emit (ModelUpdateOptions uri) s5;
              s7 = monaco_create uri s6;
              s8 = (if onDidCreateEditor (props s7) then emit OnDidCreateEditor s7 else s7);
              s9 = (if shortcutsHandler (props s8) \<and> shortcutsOptions (props s8)
                    then emit ShortcutsHandler s8 else s8);
              s10 = (if commandHandler (props s9) then emit CommandHandler s9 else s9);
              s11 = toggleEditorOptions (truthy (editorFocused (props s10))) s10;
              s12 = (if truthy (editorFocused (props s11))
                     then registerCursorListener
                            (if \<not> editor_hasWidgetFocus s11 then editor_focus s11 else s11)
                     else s11);
              s13 = emit AddEditorListeners s12;
              s14 = requestLayout (initialDimension (props s13)) s13;
              s15 = (if cursorPositionHandler (props s14)
                     then emit CursorPositionHandler s14 else s14);
              s16 = (emit AddMouseMoveListener s15)\<lparr>mouseMoveListener := True\<rparr>
          in (emit ResizeObserve s16)\<lparr>resizeObserved := True\<rparr>)"

definition onResize :: "monaco_editor \<Rightarrow> monaco_editor" where
  "onResize s =
     (if truthy (shouldUpdateLayoutWhenNotFocused (props s)) then requestLayout None s
      else if editor s \<noteq> None \<and> truthy (editorFocused (props s)) then requestLayout None s
      else s)"

text \<open>
  \<^verbatim>\<open>componentDidUpdate(prevProps)\<close>, with \<open>props s\<close> the new props. Its body is cut in
  three at the comments of the source: everything up to the registration of the completion
  provider, the block "Apply new model to the editor when the language is changed", and
  the rest from \<^verbatim>\<open>monacoUpdateOptions\<close> on.
\<close>

definition didUpdate_head :: "props \<Rightarrow> monaco_editor \<Rightarrow> monaco_editor" where
  "didUpdate_head prevProps s =
     (let s1 = updateIntersectRegistration s;
          s2 = (if cursorPositionHandler (props s1) then emit CursorPositionHandler s1 else s1);
          s3 = (if editor s2 \<noteq> None \<and> commandHandler (props s2)
                then emit CommandHandler s2 else s2);
          s4 = (if value_prop prevProps \<noteq> value_prop (props s3)
                   \<and> editor_getValue s3 \<noteq> value_prop (props s3)
                then editor_setValue (value_prop (props s3)) s3 else s3);
          s5 = emit SetChannels s4
      in registerCompletionProvider s5)"

definition didUpdate_language :: "monaco_editor \<Rightarrow> monaco_editor" where
  "didUpdate_language s =
     (case editor_getModel s of
        None \<Rightarrow> s
      | Some model \<Rightarrow>
          if truthy_str (language (props s)) \<and> getLanguageId model s \<noteq> language (props s)
          then
            let newUri = createCellUri (contentRef (props s)) (id_prop (props s))
                           (language (props s))
            in if models s newUri = None
               then
                 let position = editor_getPosition s;
                     s1 = createModel (value_prop (props s)) (language (props s)) newUri s;
                     s2 = model_setEOL newUri LF s1;
                     s3 = editor_setModel newUri s2;
                     s4 = setTimeout_dispose model s3;
                     s5 = (case position of
                             None \<Rightarrow> s4
                           | Some p \<Rightarrow> editor_setPosition p s4)
                 in if truthy (editorFocused (props s5)) \<and> \<not> editor_hasWidgetFocus s5
                    then editor_focus s5 else s5
               else s
          else s)"

definition didUpdate_tail :: "monaco_editor \<Rightarrow> monaco_editor" where
  "didUpdate_tail s =
     (let s1 = editor_updateOptions (readOnly (props s))
                 (if truthy_str (theme (props s)) then Some (theme (props s)) else None) s
      in if \<not> (case editorContainerRef s1 of None \<Rightarrow> False | Some c \<Rightarrow> offsetParent c)
         then s1
         else
           let s2 = (if truthy (editorFocused (props s1)) \<and> \<not> editor_hasWidgetFocus s1
                     then editor_focus s1 else s1)
           in requestLayout None s2)"

definition componentDidUpdate :: "props \<Rightarrow> monaco_editor \<Rightarrow> monaco_editor" where
  "componentDidUpdate prevProps s =
     (if editor s = None then s
      else didUpdate_tail (didUpdate_language (didUpdate_head prevProps s)))"



subsection \<open>Parameter-hint widgets\<close>

text \<open>\<^verbatim>\<open>String.prototype.split(" ")\<close> and \<^verbatim>\<open>Array.prototype.join(" ")\<close>.\<close>

fun split_space :: "string \<Rightarrow> string list" where
  "split_space [] = [[]]"
| "split_space (c # cs) =
     (if c = CHR '' '' then [] # split_space cs
      else (case split_space cs of
              [] \<Rightarrow> [[c]]
            | t # ts \<Rightarrow> (c # t) # ts))"

fun join_space :: "string list \<Rightarrow> string" where
  "join_space [] = []"
| "join_space [t] = t"
| "join_space (t # ts) = t @ CHR '' '' # join_space ts"

text \<open>
  An element carries a class when the class is one of the words of its \<^verbatim>\<open>class\<close>
  attribute; the selectors the component uses on elements are single class selectors,
  a dot and the class.
\<close>

definition has_class :: "string \<Rightarrow> element \<Rightarrow> bool" where
  "has_class cls e = (cls \<in> set (split_space (className e)))"

definition matches :: "string \<Rightarrow> element \<Rightarrow> bool" where
  "matches selector e =
     (case selector of [] \<Rightarrow> False | c # cls \<Rightarrow> c = CHR ''.'' \<and> has_class cls e)"

definition HOVER_BOUND_DEFAULT_PADDING :: int where
  "HOVER_BOUND_DEFAULT_PADDING = 5"

text \<open>The body of the inner loop of \<^verbatim>\<open>hideWidgets\<close>, on one widget.\<close>

definition hide_widget :: "element \<Rightarrow> element" where
  "hide_widget widget =
     (let w1 = widget\<lparr>className :=
                 join_space (filter (\<lambda>cls. cls \<noteq> ''visible'') (split_space (className widget)))\<rparr>
      in if style_visibility w1 \<noteq> ''hidden'' then w1\<lparr>style_visibility := ''hidden''\<rparr> else w1)"

definition hideWidgets :: "monaco_container \<Rightarrow> string list \<Rightarrow> monaco_container" where
  "hideWidgets widgetParent selectors =
     fold (\<lambda>selector p.
             p\<lparr>descendants :=
                 map (\<lambda>w. if matches selector w then hide_widget w else w) (descendants p)\<rparr>)
       selectors widgetParent"

definition hideAllOtherParameterWidgets :: "monaco_editor \<Rightarrow> monaco_editor" where
  "hideAllOtherParameterWidgets s =
     (case editorContainerRef s of
        None \<Rightarrow> s
      | Some c \<Rightarrow>
          s\<lparr>document :=
              map (\<lambda>widgetParent.
                     if Some (node widgetParent) \<noteq> parentElement c
                     then hideWidgets widgetParent [''.parameter-hints-widget'']
                     else widgetParent)
                (document s)\<rparr>)"

definition coordsInsideElement :: "element option \<Rightarrow> int \<Rightarrow> int \<Rightarrow> int \<Rightarrow> bool" where
  "coordsInsideElement el x y padding =
     (case el of
        None \<Rightarrow> False
      | Some e \<Rightarrow>
          let clientRect = boundingClientRect e
          in x \<ge> rect_left clientRect - padding \<and> x \<le> rect_right clientRect + padding
             \<and> y \<ge> rect_top clientRect - padding \<and> y \<le> rect_bottom clientRect + padding)"

text \<open>\<^verbatim>\<open>document.querySelector\<close>: the first match in document order.\<close>

definition querySelector :: "string \<Rightarrow> monaco_container list \<Rightarrow> element option" where
  "querySelector selector doc = find (matches selector) (concat (map descendants doc))"

text \<open>
  The handler's body; the \<^verbatim>\<open>debounce\<close> around it decides when it runs, not what
  it does.
\<close>

definition handleCoordsOutsideWidgetActiveRegion :: "int \<Rightarrow> int \<Rightarrow> monaco_editor \<Rightarrow> monaco_editor" where
  "handleCoordsOutsideWidgetActiveRegion x y s =
     (case querySelector ''.parameter-hints-widget'' (document s) of
        None \<Rightarrow> s
      | Some widget \<Rightarrow>
          if \<not> coordsInsideElement (Some widget) x y HOVER_BOUND_DEFAULT_PADDING
          then hideAllOtherParameterWidgets s
          else s)"

subsection \<open>Kinds of calls\<close>

fun is_SetValue :: "event \<Rightarrow> bool" where
  "is_SetValue (SetValue v) = True"
| "is_SetValue ev = False"

fun is_CreateModel :: "event \<Rightarrow> bool" where
  "is_CreateModel (CreateModel u v l) = True"
| "is_CreateModel ev = False"

fun is_DisposeModel :: "event \<Rightarrow> bool" where
  "is_DisposeModel (DisposeModel u) = True"
| "is_DisposeModel ev = False"

fun is_RegisterDefaultCompletionProvider :: "event \<Rightarrow> bool" where
  "is_RegisterDefaultCompletionProvider (RegisterDefaultCompletionProvider l) = True"
| "is_RegisterDefaultCompletionProvider ev = False"

fun is_Focus :: "event \<Rightarrow> bool" where
  "is_Focus Focus = True"
| "is_Focus ev = False"

fun is_OnRegisterCompletionProvider :: "event \<Rightarrow> bool" where
  "is_OnRegisterCompletionProvider (OnRegisterCompletionProvider l) = True"
| "is_OnRegisterCompletionProvider ev = False"

subsection \<open>A mounted instance\<close>

text \<open>
  The props of the repository's tests (\<^verbatim>\<open>monacoEditorCommonProps\<close>) with a short id,
  and an instance mounted with them on a visible 100 by 50 container, the second of two
  editors on a page.
\<close>

definition props0 :: props where
  "props0 =
     \<lparr>id_prop = ''foo'', contentRef = ''bar'', theme = ''vs'', readOnly = None,
      value_prop = ''a'', editorFocused = Some True, modelUri = None,
      enableCompletion = Some True, shouldRegisterDefaultCompletion = Some True,
      onCursorPositionChange = True, onRegisterDocumentFormattingEditProvider = False,
      enableFormatting = None, onRegisterCompletionProvider = False,
      language = ''python'', lineNumbers = None, batchLayoutChanges = None,
      shouldUpdateLayoutWhenNotFocused = None, skipLayoutWhenNotInViewport = None,
      skipLayoutWhenHidden = None, autoFitContentHeight = None, maxContentHeight = None,
      initialDimension = None, shortcutsOptions = False, shortcutsHandler = False,
      cursorPositionHandler = False, commandHandler = False, onDidCreateEditor = False\<rparr>"

definition container0 :: container where
  "container0 =
     \<lparr>offsetParent = True, offsetHeight = 50, clientWidth = 100, clientHeight = 50,
      parentElement = Some 2\<rparr>"

definition editor0 :: native_editor where
  "editor0 =
     \<lparr>e_model = Some (FileUri ''foo''), e_position = Some (2, 3), e_hasWidgetFocus = False,
      e_contentHeight = 40\<rparr>"

definition model0 :: text_model where
  "model0 = \<lparr>m_value = ''a'', m_languageId = ''python'', m_eol = LF\<rparr>"

text \<open>
  The page: the first editor's container holds a parameter-hint widget that is not
  shown, the second (this instance's) holds the one that is.
\<close>

definition widget_hidden :: element where
  "widget_hidden =
     \<lparr>className = ''editor-widget parameter-hints-widget'', style_visibility = ''hidden'',
      boundingClientRect = \<lparr>rect_left = 0, rect_right = 10, rect_top = 0, rect_bottom = 10\<rparr>\<rparr>"

definition widget_visible :: element where
  "widget_visible =
     \<lparr>className = ''editor-widget parameter-hints-widget visible'', style_visibility = [],
      boundingClientRect =
        \<lparr>rect_left = 100, rect_right = 200, rect_top = 100, rect_bottom = 200\<rparr>\<rparr>"

definition document0 :: "monaco_container list" where
  "document0 =
     [\<lparr>node = 1, descendants = [widget_hidden]\<rparr>, \<lparr>node = 2, descendants = [widget_visible]\<rparr>]"

definition mounted0 :: monaco_editor where
  "mounted0 =
     \<lparr>props = props0, editor = Some editor0, editorContainerRef = Some container0,
      cursorPositionListener = True, mouseMoveListener = True, intersectObservation = False,
      isInViewport = True, deferredLayoutRequest = False, deferredLayoutDimension = None,
      models = [FileUri ''foo'' \<mapsto> model0], defaultEOL = CRLF, freshEditor = editor0,
      resizeObserved = True, timers = [], throwing = {}, document = document0, trace = []\<rparr>"

text \<open>
  The same instance scrolled out of the viewport; hidden by an ancestor with
  \<^verbatim>\<open>display: none\<close> while it skips layout when hidden and when out of the viewport;
  and with a maximal content height of 20 pixels while auto-fit is switched off.
\<close>

definition offscreen0 :: monaco_editor where
  "offscreen0 = mounted0\<lparr>isInViewport := False\<rparr>"

definition hidden_offscreen0 :: monaco_editor where
  "hidden_offscreen0 =
     mounted0\<lparr>props := props0\<lparr>skipLayoutWhenHidden := Some True,
                                skipLayoutWhenNotInViewport := Some True\<rparr>,
              editorContainerRef := Some (container0\<lparr>offsetParent := False\<rparr>),
              intersectObservation := True,
              isInViewport := False\<rparr>"

definition capped0 :: monaco_editor where
  "capped0 =
     mounted0\<lparr>props := props0\<lparr>autoFitContentHeight := Some False,
                                maxContentHeight := Some 20\<rparr>\<rparr>"

text \<open>The same instance when the host supplies \<^verbatim>\<open>onRegisterCompletionProvider\<close>.\<close>

definition with_callback0 :: monaco_editor where
  "with_callback0 = mounted0\<lparr>props := props0\<lparr>onRegisterCompletionProvider := True\<rparr>\<rparr>"

text \<open>
  Updates of the mounted instance, each with \<open>props0\<close> as the previous props: the value
  changes to \<^verbatim>\<open>b\<close>; the language changes to \<^verbatim>\<open>markdown\<close>; the language changes to
  the empty string; the language changes to \<^verbatim>\<open>markdown\<close> while the registry already
  holds a model at the cell's markdown uri.
\<close>

definition new_value0 :: monaco_editor where
  "new_value0 = mounted0\<lparr>props := props0\<lparr>value_prop := ''b''\<rparr>\<rparr>"

definition to_markdown0 :: monaco_editor where
  "to_markdown0 = mounted0\<lparr>props := props0\<lparr>language := ''markdown''\<rparr>\<rparr>"

definition no_language0 :: monaco_editor where
  "no_language0 = mounted0\<lparr>props := props0\<lparr>language := []\<rparr>\<rparr>"

definition markdown_model0 :: text_model where
  "markdown_model0 = \<lparr>m_value = ''a'', m_languageId = ''markdown'', m_eol = CRLF\<rparr>"

definition existing0 :: monaco_editor where
  "existing0 =
     mounted0\<lparr>props := props0\<lparr>language := ''markdown''\<rparr>,
              models := [FileUri ''foo'' \<mapsto> model0,
                         CellUri ''bar'' ''foo'' ''markdown'' \<mapsto> markdown_model0]\<rparr>"

text \<open>
  The instance before it is mounted, and the mounted instance when
  \<^verbatim>\<open>editor.dispose()\<close> throws.
\<close>

definition unmounted0 :: monaco_editor where
  "unmounted0 =
     mounted0\<lparr>editor := None, cursorPositionListener := False, mouseMoveListener := False,
              models := Map.empty, resizeObserved := False\<rparr>"


text \<open>The first editor of the same page, mounted on the first container.\<close>

definition first_editor0 :: monaco_editor where
  "first_editor0 = mounted0\<lparr>editorContainerRef := Some (container0\<lparr>parentElement := Some 1\<rparr>)\<rparr>"

section \<open>Properties\<close>

subsection \<open>Layout requests\<close>

lemma calls_emit: "calls P (emit ev s) = calls P s + (if P ev then 1 else 0)"
  by (simp add: calls_def emit_def)

lemma requestLayout_deferred:
  "editor s \<noteq> None \<Longrightarrow> \<not> isInViewport s \<Longrightarrow>
   requestLayout d s = s\<lparr>deferredLayoutDimension := d, deferredLayoutRequest := True\<rparr>"
  by (cases "editor s") (simp_all add: requestLayout_def)

lemma requestLayout_immediate:
  "editor s \<noteq> None \<Longrightarrow> isInViewport s \<Longrightarrow> shouldLayout s \<Longrightarrow>
   batchLayoutChanges (props s) \<noteq> Some True \<Longrightarrow>
   requestLayout (Some dim) s = emit (Layout dim) s"
  by (auto simp add: requestLayout_def layout_def)

lemma trace_requestLayout_cases:
  "trace (requestLayout d s) = trace s
   \<or> (\<exists>dim. trace (requestLayout d s) = trace s @ [Layout dim])
   \<or> trace (requestLayout d s) = trace s @ [ScheduleEditorForLayout d]"
  by (auto simp add: requestLayout_def layout_def scheduleEditorForLayout_def emit_def
      split: option.splits)

lemma calls_Layout_requestLayout:
  "calls is_Layout (requestLayout d s) \<le> calls is_Layout s + 1"
  using trace_requestLayout_cases [of d s] by (auto simp add: calls_def)

lemma requestLayout_flags:
  "isInViewport s \<Longrightarrow> deferredLayoutRequest (requestLayout d s) = deferredLayoutRequest s
     \<and> isInViewport (requestLayout d s)"
  by (auto simp add: requestLayout_def layout_def scheduleEditorForLayout_def emit_def
      split: option.splits)

lemma onIntersecting_flush:
  "\<not> isInViewport s \<Longrightarrow> deferredLayoutRequest s \<Longrightarrow>
   onIntersecting True s
     = requestLayout (deferredLayoutDimension s) (s\<lparr>isInViewport := True, deferredLayoutRequest := False\<rparr>)"
  by (simp add: onIntersecting_def Let_def)

lemma onIntersecting_same: "onIntersecting (isInViewport t) t = t"
  by (simp add: onIntersecting_def)

text \<open>
  Claim C4. On an instance with a live editor that is marked as not intersecting the
  viewport, a layout request makes no call at all (no native layout, no scheduling): it
  sets the deferred flag and stores its dimension over any earlier one. When the
  intersection state then goes from false to true, the stored request is issued once, as
  one \<open>requestLayout\<close> with the stored dimension and the flag cleared, which lays the native
  editor out at most once, and exactly once at an explicit dimension when the request is
  neither skipped as hidden nor batched. Reporting the intersection state the instance
  already has changes nothing.
\<close>

theorem viewport_gated_layout:
  assumes live: "editor s \<noteq> None" and out: "\<not> isInViewport s"
  shows "trace (requestLayout d s) = trace s
       \<and> deferredLayoutRequest (requestLayout d s)
       \<and> deferredLayoutDimension (requestLayout d s) = d
       \<and> deferredLayoutDimension (requestLayout d' (requestLayout d s)) = d'
       \<and> onIntersecting True (requestLayout d s)
           = requestLayout d ((requestLayout d s)\<lparr>isInViewport := True, deferredLayoutRequest := False\<rparr>)
       \<and> \<not> deferredLayoutRequest (onIntersecting True (requestLayout d s))
       \<and> calls is_Layout (onIntersecting True (requestLayout d s)) \<le> calls is_Layout s + 1
       \<and> (shouldLayout s \<and> batchLayoutChanges (props s) \<noteq> Some True \<longrightarrow>
            (\<forall>dim. d = Some dim \<longrightarrow>
               trace (onIntersecting True (requestLayout d s)) = trace s @ [Layout dim]))
       \<and> onIntersecting (isInViewport t) t = t"
proof -
  let ?s1 = "requestLayout d s"
  let ?s2 = "?s1\<lparr>isInViewport := True, deferredLayoutRequest := False\<rparr>"
  have s1: "?s1 = s\<lparr>deferredLayoutDimension := d, deferredLayoutRequest := True\<rparr>"
    using live out by (rule requestLayout_deferred)
  have a: "trace ?s1 = trace s" by (simp add: s1)
  have b: "deferredLayoutRequest ?s1" by (simp add: s1)
  have c: "deferredLayoutDimension ?s1 = d" by (simp add: s1)
  have c': "deferredLayoutDimension (requestLayout d' ?s1) = d'"
    using live out by (simp add: s1 requestLayout_deferred)
  have "\<not> isInViewport ?s1" using out by (simp add: s1)
  then have e: "onIntersecting True ?s1 = requestLayout d ?s2"
    using b c onIntersecting_flush [of ?s1] by simp
  have f: "\<not> deferredLayoutRequest (onIntersecting True ?s1)"
    using requestLayout_flags [of ?s2 d] by (simp add: e)
  have "calls is_Layout (requestLayout d ?s2) \<le> calls is_Layout ?s2 + 1"
    by (rule calls_Layout_requestLayout)
  then have g: "calls is_Layout (onIntersecting True ?s1) \<le> calls is_Layout s + 1"
    by (simp add: e) (simp add: s1 calls_def)
  have h: "shouldLayout s \<and> batchLayoutChanges (props s) \<noteq> Some True \<longrightarrow>
            (\<forall>dim. d = Some dim \<longrightarrow>
               trace (onIntersecting True ?s1) = trace s @ [Layout dim])"
  proof (intro impI allI)
    fix dim
    assume sl: "shouldLayout s \<and> batchLayoutChanges (props s) \<noteq> Some True" and d: "d = Some dim"
    have "shouldLayout ?s2 = shouldLayout s" by (simp add: s1 shouldLayout_def isContainerHidden_def)
    then have "shouldLayout ?s2" using sl by simp
    moreover have "editor ?s2 \<noteq> None" using live by (simp add: s1)
    moreover have "batchLayoutChanges (props ?s2) \<noteq> Some True" using sl by (simp add: s1)
    moreover have "isInViewport ?s2" by simp
    ultimately have imm: "requestLayout (Some dim) ?s2 = emit (Layout dim) ?s2"
      by (rule_tac requestLayout_immediate)
    have "trace (onIntersecting True ?s1) = trace (requestLayout (Some dim) ?s2)"
      using e d by simp
    also have "\<dots> = trace ?s2 @ [Layout dim]"
      by (simp only: imm) (simp add: emit_def)
    also have "\<dots> = trace s @ [Layout dim]"
      using a by simp
    finally show "trace (onIntersecting True ?s1) = trace s @ [Layout dim]" .
  qed
  show ?thesis using a b c c' e f g h onIntersecting_same by blast
qed


text \<open>The scrolled-out instance, asked for 3 by 4 pixels and then scrolled into view.\<close>

theorem viewport_gated_layout_witness:
  "editor offscreen0 \<noteq> None \<and> \<not> isInViewport offscreen0
   \<and> trace (requestLayout (Some \<lparr>width = 3, height = 4\<rparr>) offscreen0) = []
   \<and> trace (onIntersecting True (requestLayout (Some \<lparr>width = 3, height = 4\<rparr>) offscreen0))
       = [Layout \<lparr>width = 3, height = 4\<rparr>]"
proof -
  have live: "editor offscreen0 \<noteq> None" by (simp add: offscreen0_def mounted0_def)
  have out: "\<not> isInViewport offscreen0" by (simp add: offscreen0_def)
  have sl: "shouldLayout offscreen0 \<and> batchLayoutChanges (props offscreen0) \<noteq> Some True"
    by (simp add: offscreen0_def mounted0_def props0_def shouldLayout_def truthy_def)
  have tr: "trace offscreen0 = []" by (simp add: offscreen0_def mounted0_def)
  note gated = viewport_gated_layout [OF live out, of "Some \<lparr>width = 3, height = 4\<rparr>"]
  from gated have a: "trace (requestLayout (Some \<lparr>width = 3, height = 4\<rparr>) offscreen0)
      = trace offscreen0"
    by blast
  from gated sl
  have b: "trace (onIntersecting True (requestLayout (Some \<lparr>width = 3, height = 4\<rparr>) offscreen0))
      = trace offscreen0 @ [Layout \<lparr>width = 3, height = 4\<rparr>]"
    by blast
  show ?thesis using live out a b tr by simp
qed

lemma requestLayout_hidden:
  "truthy (skipLayoutWhenHidden (props s)) \<Longrightarrow> isContainerHidden s \<Longrightarrow> isInViewport s \<Longrightarrow>
   requestLayout d s = s"
  by (simp add: requestLayout_def shouldLayout_def)

lemma trace_requestLayout_hidden:
  "truthy (skipLayoutWhenHidden (props s)) \<Longrightarrow> isContainerHidden s \<Longrightarrow>
   trace (requestLayout d s) = trace s"
  by (simp add: requestLayout_def shouldLayout_def)

lemma isContainerHidden_requestLayout:
  "isContainerHidden (requestLayout d s) = isContainerHidden s"
  by (auto simp add: requestLayout_def layout_def scheduleEditorForLayout_def emit_def
      isContainerHidden_def split: option.splits)

lemma props_requestLayout: "props (requestLayout d s) = props s"
  by (auto simp add: requestLayout_def layout_def scheduleEditorForLayout_def emit_def
      split: option.splits)

text \<open>
  Claim C5, as amended. With skip-layout-when-hidden enabled and the container hidden, a
  layout request makes no native layout call and schedules none, whatever the intersection
  state, and so does a change of the intersection state while the container stays hidden.
  When the instance is marked as intersecting, the request is dropped: the state is
  unchanged. When it is marked as not intersecting (and the editor is live), the request is
  first deferred, with its dimension stored; the flush at the next intersection is the one
  that is dropped.
\<close>

theorem hidden_container_no_layout:
  assumes skip: "truthy (skipLayoutWhenHidden (props s))" and hidden: "isContainerHidden s"
  shows "trace (requestLayout d s) = trace s
       \<and> (isInViewport s \<longrightarrow> requestLayout d s = s)
       \<and> (\<not> isInViewport s \<and> editor s \<noteq> None \<longrightarrow>
            requestLayout d s = s\<lparr>deferredLayoutDimension := d, deferredLayoutRequest := True\<rparr>)
       \<and> trace (onIntersecting b s) = trace s
       \<and> isContainerHidden (requestLayout d s)
       \<and> isContainerHidden (onIntersecting b s)"
proof -
  have a: "trace (requestLayout d s) = trace s"
    using skip hidden by (rule trace_requestLayout_hidden)
  have b: "isInViewport s \<longrightarrow> requestLayout d s = s"
    using skip hidden by (simp add: requestLayout_hidden)
  have c: "\<not> isInViewport s \<and> editor s \<noteq> None \<longrightarrow>
            requestLayout d s = s\<lparr>deferredLayoutDimension := d, deferredLayoutRequest := True\<rparr>"
    by (simp add: requestLayout_deferred)
  have e: "isContainerHidden (requestLayout d s)"
    using hidden by (simp add: isContainerHidden_requestLayout)
  have f: "trace (onIntersecting b s) = trace s \<and> isContainerHidden (onIntersecting b s)"
  proof (cases "isInViewport s \<noteq> b \<and> b \<and> deferredLayoutRequest s")
    case True
    let ?s2 = "s\<lparr>isInViewport := True, deferredLayoutRequest := False\<rparr>"
    have o: "onIntersecting b s = requestLayout (deferredLayoutDimension s) ?s2"
      using True onIntersecting_flush [of s] by simp
    have "truthy (skipLayoutWhenHidden (props ?s2))" using skip by simp
    moreover have h2: "isContainerHidden ?s2" using hidden by (simp add: isContainerHidden_def)
    ultimately have "trace (requestLayout (deferredLayoutDimension s) ?s2) = trace ?s2"
      by (rule trace_requestLayout_hidden)
    then show ?thesis using h2 by (simp add: o isContainerHidden_requestLayout)
  next
    case False
    then have "onIntersecting b s = s \<or> onIntersecting b s = s\<lparr>isInViewport := b\<rparr>"
      by (auto simp add: onIntersecting_def Let_def)
    then show ?thesis using hidden by (auto simp add: isContainerHidden_def)
  qed
  show ?thesis using a b c e f by blast
qed

text \<open>The hidden, scrolled-out instance: a request, then scrolling into view.\<close>

theorem hidden_container_no_layout_witness:
  "truthy (skipLayoutWhenHidden (props hidden_offscreen0)) \<and> isContainerHidden hidden_offscreen0
   \<and> trace (requestLayout None hidden_offscreen0) = []
   \<and> trace (onIntersecting True (requestLayout None hidden_offscreen0)) = []"
proof -
  have skip: "truthy (skipLayoutWhenHidden (props hidden_offscreen0))"
    by (simp add: hidden_offscreen0_def props0_def truthy_def)
  have hidden: "isContainerHidden hidden_offscreen0"
    by (simp add: hidden_offscreen0_def isContainerHidden_def container0_def)
  have tr: "trace hidden_offscreen0 = []" by (simp add: hidden_offscreen0_def mounted0_def)
  have skip': "truthy (skipLayoutWhenHidden (props (requestLayout None hidden_offscreen0)))"
    using skip by (simp add: props_requestLayout)
  have hidden': "isContainerHidden (requestLayout None hidden_offscreen0)"
    using hidden by (simp add: isContainerHidden_requestLayout)
  show ?thesis
    using hidden_container_no_layout [OF skip hidden, of None True]
      hidden_container_no_layout [OF skip' hidden', of None True] skip hidden tr
    by simp
qed

text \<open>
  Claim C5 as stated fails there: the request of a hidden container is deferred, not
  dropped, when the instance is marked as not intersecting, since the viewport test comes
  first.
\<close>

theorem hidden_request_deferred_counterexample:
  "truthy (skipLayoutWhenHidden (props hidden_offscreen0)) \<and> isContainerHidden hidden_offscreen0
   \<and> \<not> deferredLayoutRequest hidden_offscreen0
   \<and> deferredLayoutRequest (requestLayout None hidden_offscreen0)
   \<and> requestLayout None hidden_offscreen0 \<noteq> hidden_offscreen0"
proof -
  have a: "\<not> deferredLayoutRequest hidden_offscreen0"
    by (simp add: hidden_offscreen0_def mounted0_def)
  have b: "deferredLayoutRequest (requestLayout None hidden_offscreen0)"
    by (simp add: hidden_offscreen0_def mounted0_def requestLayout_def)
  have c: "truthy (skipLayoutWhenHidden (props hidden_offscreen0))"
    by (simp add: hidden_offscreen0_def props0_def truthy_def)
  have d: "isContainerHidden hidden_offscreen0"
    by (simp add: hidden_offscreen0_def isContainerHidden_def container0_def)
  from a b have "requestLayout None hidden_offscreen0 \<noteq> hidden_offscreen0" by metis
  with a b c d show ?thesis by simp
qed

text \<open>
  Claim C9. With auto-fit switched off and a maximal content height of 20 pixels, a
  container of 100 by 50 pixels is laid out at 100 by 20: \<open>getLayoutDimension\<close> applies
  the maximum whether or not auto-fit is enabled, although the documentation of
  \<^verbatim>\<open>maxContentHeight\<close> says that it "only works when autoFitContentHeight is true".
\<close>

theorem clamp_applied_without_auto_fit:
  "autoFitContentHeight (props capped0) = Some False
   \<and> readEditorDomSize capped0 = Some \<lparr>width = 100, height = 50\<rparr>
   \<and> getLayoutDimension capped0 = Some \<lparr>width = 100, height = 20\<rparr>
   \<and> trace (requestLayout None capped0) = [Layout \<lparr>width = 100, height = 20\<rparr>]"
  by (simp add: capped0_def mounted0_def props0_def container0_def editor0_def
      readEditorDomSize_def getLayoutDimension_def requestLayout_def shouldLayout_def
      truthy_def layout_def emit_def)

text \<open>
  Claim C10. \<open>registerCompletionProvider\<close> calls the caller's
  \<^verbatim>\<open>onRegisterCompletionProvider\<close> exactly when completion is enabled, the language is
  not empty and the callback is supplied, with the language, and then registers no default
  provider, also when \<^verbatim>\<open>shouldRegisterDefaultCompletion\<close> is true. It registers the
  default provider exactly when completion is enabled, the language is not empty, no
  callback is supplied and \<^verbatim>\<open>shouldRegisterDefaultCompletion\<close> is true. With completion
  disabled or an empty language it does nothing.
\<close>

theorem completion_provider_registration:
  "calls is_OnRegisterCompletionProvider (registerCompletionProvider s)
     = calls is_OnRegisterCompletionProvider s
       + (if truthy (enableCompletion (props s)) \<and> language (props s) \<noteq> []
             \<and> onRegisterCompletionProvider (props s) then 1 else 0)
   \<and> calls is_RegisterDefaultCompletionProvider (registerCompletionProvider s)
     = calls is_RegisterDefaultCompletionProvider s
       + (if truthy (enableCompletion (props s)) \<and> language (props s) \<noteq> []
             \<and> \<not> onRegisterCompletionProvider (props s)
             \<and> truthy (shouldRegisterDefaultCompletion (props s)) then 1 else 0)
   \<and> (truthy (enableCompletion (props s)) \<and> language (props s) \<noteq> []
        \<and> onRegisterCompletionProvider (props s) \<longrightarrow>
        trace (registerCompletionProvider s)
          = trace s @ [OnRegisterCompletionProvider (language (props s))])
   \<and> (truthy (enableCompletion (props s)) \<and> language (props s) \<noteq> []
        \<and> \<not> onRegisterCompletionProvider (props s)
        \<and> truthy (shouldRegisterDefaultCompletion (props s)) \<longrightarrow>
        trace (registerCompletionProvider s)
          = trace s @ [RegisterDefaultCompletionProvider (language (props s))])
   \<and> (\<not> truthy (enableCompletion (props s)) \<or> language (props s) = [] \<longrightarrow>
        registerCompletionProvider s = s)"
  by (simp add: registerCompletionProvider_def registerDefaultCompletionProvider_def
      truthy_str_def calls_def emit_def)

text \<open>
  With completion enabled, the language \<^verbatim>\<open>python\<close>, the callback supplied and
  \<^verbatim>\<open>shouldRegisterDefaultCompletion\<close> true, only the callback is called.
\<close>

theorem completion_provider_registration_witness:
  "truthy (enableCompletion (props with_callback0)) \<and> language (props with_callback0) \<noteq> []
   \<and> onRegisterCompletionProvider (props with_callback0)
   \<and> truthy (shouldRegisterDefaultCompletion (props with_callback0))
   \<and> trace (registerCompletionProvider with_callback0) = [OnRegisterCompletionProvider ''python'']
   \<and> calls is_RegisterDefaultCompletionProvider (registerCompletionProvider with_callback0) = 0"
proof -
  have h: "truthy (enableCompletion (props with_callback0)) \<and> language (props with_callback0) \<noteq> []
      \<and> onRegisterCompletionProvider (props with_callback0)
      \<and> truthy (shouldRegisterDefaultCompletion (props with_callback0))"
    by (simp add: with_callback0_def props0_def truthy_def)
  have l: "language (props with_callback0) = ''python''"
    by (simp add: with_callback0_def props0_def)
  have t: "trace with_callback0 = []"
    by (simp add: with_callback0_def mounted0_def)
  note reg = completion_provider_registration [of with_callback0]
  from reg h have a: "trace (registerCompletionProvider with_callback0)
      = trace with_callback0 @ [OnRegisterCompletionProvider (language (props with_callback0))]"
    by blast
  from reg h have b: "calls is_RegisterDefaultCompletionProvider
      (registerCompletionProvider with_callback0)
      = calls is_RegisterDefaultCompletionProvider with_callback0"
    by simp
  show ?thesis using h a b by (simp add: l t calls_def)
qed

subsection \<open>Updates\<close>

text \<open>What each step of an update leaves alone, and which calls it adds.\<close>

lemma uir_frame:
  "props (updateIntersectRegistration s) = props s"
  "editor (updateIntersectRegistration s) = editor s"
  "models (updateIntersectRegistration s) = models s"
  "timers (updateIntersectRegistration s) = timers s"
  "throwing (updateIntersectRegistration s) = throwing s"
  "editorContainerRef (updateIntersectRegistration s) = editorContainerRef s"
  by (simp_all add: updateIntersectRegistration_def emit_def)

lemma uir_calls:
  "\<not> P IntersectionObserve \<Longrightarrow> \<not> P IntersectionUnobserve \<Longrightarrow>
   calls P (updateIntersectRegistration s) = calls P s"
  by (simp add: updateIntersectRegistration_def emit_def calls_def)

lemma rcp_frame:
  "props (registerCompletionProvider s) = props s"
  "editor (registerCompletionProvider s) = editor s"
  "models (registerCompletionProvider s) = models s"
  "timers (registerCompletionProvider s) = timers s"
  "throwing (registerCompletionProvider s) = throwing s"
  "editorContainerRef (registerCompletionProvider s) = editorContainerRef s"
  by (simp_all add: registerCompletionProvider_def registerDefaultCompletionProvider_def emit_def)

lemma rcp_calls:
  "(\<And>l. \<not> P (OnRegisterCompletionProvider l)) \<Longrightarrow>
   (\<And>l. \<not> P (RegisterDefaultCompletionProvider l)) \<Longrightarrow>
   calls P (registerCompletionProvider s) = calls P s"
  by (simp add: registerCompletionProvider_def registerDefaultCompletionProvider_def
      emit_def calls_def)

lemma emit_frame:
  "props (emit ev s) = props s"
  "editor (emit ev s) = editor s"
  "models (emit ev s) = models s"
  "timers (emit ev s) = timers s"
  "throwing (emit ev s) = throwing s"
  "editorContainerRef (emit ev s) = editorContainerRef s"
  by (simp_all add: emit_def)

lemma requestLayout_frame:
  "props (requestLayout d s) = props s"
  "editor (requestLayout d s) = editor s"
  "models (requestLayout d s) = models s"
  "timers (requestLayout d s) = timers s"
  "throwing (requestLayout d s) = throwing s"
  "editorContainerRef (requestLayout d s) = editorContainerRef s"
  by (auto simp add: requestLayout_def layout_def scheduleEditorForLayout_def emit_def
      split: option.splits)

lemma requestLayout_calls:
  "(\<And>x. \<not> P (Layout x)) \<Longrightarrow> (\<And>x. \<not> P (ScheduleEditorForLayout x)) \<Longrightarrow>
   calls P (requestLayout d s) = calls P s"
  by (auto simp add: requestLayout_def layout_def scheduleEditorForLayout_def emit_def calls_def
      split: option.splits)

text \<open>What is read from the native editor depends on the editor and the registry only.\<close>

lemma getters_cong:
  assumes "editor t = editor s" and "models t = models s"
  shows "editor_getModel t = editor_getModel s"
    and "editor_getValue t = editor_getValue s"
    and "editor_getPosition t = editor_getPosition s"
    and "editor_hasWidgetFocus t = editor_hasWidgetFocus s"
    and "getLanguageId u t = getLanguageId u s"
  unfolding editor_getModel_def editor_getValue_def editor_getPosition_def
    editor_hasWidgetFocus_def getLanguageId_def assms
  by simp_all

lemma setValue_frame:
  "props (editor_setValue v s) = props s"
  "timers (editor_setValue v s) = timers s"
  "throwing (editor_setValue v s) = throwing s"
  "editorContainerRef (editor_setValue v s) = editorContainerRef s"
  "(editor (editor_setValue v s) = None) = (editor s = None)"
  "(models (editor_setValue v s) u = None) = (models s u = None)"
  "editor_getModel (editor_setValue v s) = editor_getModel s"
  "editor_hasWidgetFocus (editor_setValue v s) = editor_hasWidgetFocus s"
  "getLanguageId u (editor_setValue v s) = getLanguageId u s"
  by (auto simp add: editor_setValue_def emit_def upd_editor_def editor_getModel_def
      editor_hasWidgetFocus_def getLanguageId_def split: option.splits)

lemma setValue_calls:
  "calls P (editor_setValue v s) = calls P s + (if P (SetValue v) then 1 else 0)"
  by (simp add: editor_setValue_def emit_def upd_editor_def calls_def split: option.splits)


lemma head_frame:
  "props (didUpdate_head prev s) = props s"
  "timers (didUpdate_head prev s) = timers s"
  "throwing (didUpdate_head prev s) = throwing s"
  "editorContainerRef (didUpdate_head prev s) = editorContainerRef s"
  "(editor (didUpdate_head prev s) = None) = (editor s = None)"
  "(models (didUpdate_head prev s) u = None) = (models s u = None)"
  "editor_getModel (didUpdate_head prev s) = editor_getModel s"
  "editor_hasWidgetFocus (didUpdate_head prev s) = editor_hasWidgetFocus s"
  "getLanguageId u (didUpdate_head prev s) = getLanguageId u s"
  by (simp_all add: didUpdate_head_def Let_def rcp_frame emit_frame uir_frame setValue_frame
      getters_cong [where t = "registerCompletionProvider x" and s = x for x]
      getters_cong [where t = "emit ev x" and s = x for ev x]
      getters_cong [where t = "updateIntersectRegistration x" and s = x for x])


lemmas getters_emit = getters_cong [where t = "emit ev x" and s = x for ev x, OF emit_frame(2) emit_frame(3)]
lemmas getters_uir = getters_cong [where t = "updateIntersectRegistration x" and s = x for x, OF uir_frame(2) uir_frame(3)]
lemmas getters_rcp = getters_cong [where t = "registerCompletionProvider x" and s = x for x, OF rcp_frame(2) rcp_frame(3)]
lemmas getters_requestLayout = getters_cong [where t = "requestLayout d x" and s = x for d x, OF requestLayout_frame(2) requestLayout_frame(3)]

lemma head_calls:
  assumes "\<not> P IntersectionObserve" "\<not> P IntersectionUnobserve" "\<not> P CursorPositionHandler"
    "\<not> P CommandHandler" "\<not> P SetChannels"
    "\<And>l. \<not> P (OnRegisterCompletionProvider l)" "\<And>l. \<not> P (RegisterDefaultCompletionProvider l)"
  shows "calls P (didUpdate_head prev s)
    = calls P s + (if value_prop prev \<noteq> value_prop (props s)
                      \<and> editor_getValue s \<noteq> value_prop (props s)
                      \<and> P (SetValue (value_prop (props s))) then 1 else 0)"
  using assms
  by (simp add: didUpdate_head_def Let_def rcp_calls calls_emit setValue_calls uir_calls
      emit_frame uir_frame getters_emit getters_uir)

lemma upd_editor_frame:
  "props (upd_editor f s) = props s"
  "models (upd_editor f s) = models s"
  "timers (upd_editor f s) = timers s"
  "throwing (upd_editor f s) = throwing s"
  "editorContainerRef (upd_editor f s) = editorContainerRef s"
  "trace (upd_editor f s) = trace s"
  "calls P (upd_editor f s) = calls P s"
  "editor (upd_editor f s) = map_option f (editor s)"
  by (simp_all add: upd_editor_def calls_def)

lemma focus_frame:
  "props (editor_focus s) = props s"
  "models (editor_focus s) = models s"
  "timers (editor_focus s) = timers s"
  "throwing (editor_focus s) = throwing s"
  "editorContainerRef (editor_focus s) = editorContainerRef s"
  "editor_getModel (editor_focus s) = editor_getModel s"
  "editor_getPosition (editor_focus s) = editor_getPosition s"
  "calls P (editor_focus s) = calls P s + (if P Focus then 1 else 0)"
  by (simp_all add: editor_focus_def emit_frame upd_editor_frame calls_emit getters_emit)
     (simp_all add: upd_editor_def editor_getModel_def editor_getPosition_def split: option.splits)

lemma tail_frame:
  "props (didUpdate_tail s) = props s"
  "throwing (didUpdate_tail s) = throwing s"
  "timers (didUpdate_tail s) = timers s"
  "models (didUpdate_tail s) = models s"
  "editor_getModel (didUpdate_tail s) = editor_getModel s"
  "editor_getPosition (didUpdate_tail s) = editor_getPosition s"
  by (simp_all add: didUpdate_tail_def Let_def editor_updateOptions_def focus_frame
      emit_frame requestLayout_frame getters_requestLayout getters_emit)

lemma tail_calls:
  assumes "\<And>a b. \<not> P (UpdateOptions a b)" "\<And>x. \<not> P (Layout x)"
    "\<And>x. \<not> P (ScheduleEditorForLayout x)"
  shows "calls P (didUpdate_tail s)
    = calls P s + (if (case editorContainerRef s of None \<Rightarrow> False | Some c \<Rightarrow> offsetParent c)
                      \<and> truthy (editorFocused (props s)) \<and> \<not> editor_hasWidgetFocus s
                      \<and> P Focus then 1 else 0)"
  using assms
  by (simp add: didUpdate_tail_def Let_def editor_updateOptions_def focus_frame
      requestLayout_calls calls_emit emit_frame getters_emit)


lemma getModel_SomeD:
  "editor_getModel s = Some u \<Longrightarrow>
   \<exists>e m. editor s = Some e \<and> e_model e = Some u \<and> models s u = Some m"
  by (auto simp add: editor_getModel_def split: option.splits)

lemma language_noop:
  "editor_getModel s = None \<or> language (props s) = []
   \<or> (\<exists>old. editor_getModel s = Some old \<and> getLanguageId old s = language (props s))
   \<or> models s (createCellUri (contentRef (props s)) (id_prop (props s)) (language (props s))) \<noteq> None
   \<Longrightarrow> didUpdate_language s = s"
  by (auto simp add: didUpdate_language_def truthy_str_def Let_def split: option.splits)

lemma language_swap:
  assumes m: "editor_getModel s = Some old"
    and l: "language (props s) \<noteq> []"
    and d: "getLanguageId old s \<noteq> language (props s)"
    and n: "models s (createCellUri (contentRef (props s)) (id_prop (props s)) (language (props s))) = None"
  defines "nu \<equiv> createCellUri (contentRef (props s)) (id_prop (props s)) (language (props s))"
  shows "trace (didUpdate_language s)
      = trace s @ [CreateModel nu (value_prop (props s)) (language (props s)), SetEOL nu LF,
                   SetModel nu, SetTimeout old]
          @ (case editor_getPosition s of None \<Rightarrow> [] | Some p \<Rightarrow> [SetPosition p])
          @ (if truthy (editorFocused (props s)) \<and> \<not> editor_hasWidgetFocus s then [Focus] else [])"
    and "timers (didUpdate_language s) = timers s @ [old]"
    and "props (didUpdate_language s) = props s"
    and "editorContainerRef (didUpdate_language s) = editorContainerRef s"
    and "throwing (didUpdate_language s) = throwing s"
    and "models (didUpdate_language s)
      = (models s)(nu \<mapsto> \<lparr>m_value = value_prop (props s), m_languageId = language (props s),
                            m_eol = LF\<rparr>)"
    and "editor_getModel (didUpdate_language s) = Some nu"
    and "editor_getPosition (didUpdate_language s)
      = (case editor_getPosition s of None \<Rightarrow> Some (1, 1) | Some p \<Rightarrow> Some p)"
    and "editor_hasWidgetFocus (didUpdate_language s)
      = (editor_hasWidgetFocus s \<or> truthy (editorFocused (props s)))"
proof -
  from getModel_SomeD [OF m] obtain e mo where
    e: "editor s = Some e" "e_model e = Some old" "models s old = Some mo" by blast
  have n': "models s nu = None" using n by (simp add: nu_def)
  have unf: "didUpdate_language s =
      (let s4 = setTimeout_dispose old (editor_setModel nu (model_setEOL nu LF
                  (createModel (value_prop (props s)) (language (props s)) nu s)));
           s5 = (case editor_getPosition s of None \<Rightarrow> s4 | Some p \<Rightarrow> editor_setPosition p s4)
       in if truthy (editorFocused (props s5)) \<and> \<not> editor_hasWidgetFocus s5
          then editor_focus s5 else s5)"
    using m l d n by (simp add: didUpdate_language_def truthy_str_def Let_def nu_def)
  note defs = createModel_def model_setEOL_def editor_setModel_def setTimeout_dispose_def
    editor_setPosition_def editor_focus_def upd_editor_def emit_def editor_getPosition_def
    editor_hasWidgetFocus_def editor_getModel_def Let_def
  show "trace (didUpdate_language s)
      = trace s @ [CreateModel nu (value_prop (props s)) (language (props s)), SetEOL nu LF,
                   SetModel nu, SetTimeout old]
          @ (case editor_getPosition s of None \<Rightarrow> [] | Some p \<Rightarrow> [SetPosition p])
          @ (if truthy (editorFocused (props s)) \<and> \<not> editor_hasWidgetFocus s then [Focus] else [])"
    using e by (simp add: unf defs split: option.splits)
  show "timers (didUpdate_language s) = timers s @ [old]"
    using e by (simp add: unf defs split: option.splits)
  show "props (didUpdate_language s) = props s"
    using e by (simp add: unf defs split: option.splits)
  show "editorContainerRef (didUpdate_language s) = editorContainerRef s"
    using e by (simp add: unf defs split: option.splits)
  show "throwing (didUpdate_language s) = throwing s"
    using e by (simp add: unf defs split: option.splits)
  show "models (didUpdate_language s)
      = (models s)(nu \<mapsto> \<lparr>m_value = value_prop (props s), m_languageId = language (props s),
                            m_eol = LF\<rparr>)"
    using e by (simp add: unf defs split: option.splits)
  show "editor_getModel (didUpdate_language s) = Some nu"
    using e by (simp add: unf defs split: option.splits)
  show "editor_getPosition (didUpdate_language s)
      = (case editor_getPosition s of None \<Rightarrow> Some (1, 1) | Some p \<Rightarrow> Some p)"
    using e by (simp add: unf defs split: option.splits)
  show "editor_hasWidgetFocus (didUpdate_language s)
      = (editor_hasWidgetFocus s \<or> truthy (editorFocused (props s)))"
    using e by (auto simp add: unf defs split: option.splits)
qed


lemma language_calls:
  assumes "\<And>a b c. \<not> P (CreateModel a b c)" "\<And>a b. \<not> P (SetEOL a b)" "\<And>a. \<not> P (SetModel a)"
    "\<And>a. \<not> P (SetTimeout a)" "\<And>a. \<not> P (SetPosition a)" "\<not> P Focus"
  shows "calls P (didUpdate_language s) = calls P s"
proof (cases "editor_getModel s = None \<or> language (props s) = []
   \<or> (\<exists>old. editor_getModel s = Some old \<and> getLanguageId old s = language (props s))
   \<or> models s (createCellUri (contentRef (props s)) (id_prop (props s)) (language (props s))) \<noteq> None")
  case True
  then show ?thesis by (simp only: language_noop)
next
  case False
  then obtain old where "editor_getModel s = Some old" "language (props s) \<noteq> []"
    "getLanguageId old s \<noteq> language (props s)"
    "models s (createCellUri (contentRef (props s)) (id_prop (props s)) (language (props s))) = None"
    by auto
  from language_swap(1) [OF this] show ?thesis
    using assms by (simp add: calls_def split: option.splits)
qed

text \<open>
  Claim C1. An update pushes a value to the native editor (\<^verbatim>\<open>setValue\<close>) exactly once
  when there is a live editor, the new value differs from the value of the previous props
  and it differs from the text the editor holds (\<^verbatim>\<open>getValue\<close>); otherwise it pushes
  none. The value pushed is the new value.
\<close>

theorem value_push:
  "calls is_SetValue (componentDidUpdate prevProps s)
     = calls is_SetValue s
       + (if editor s \<noteq> None \<and> value_prop prevProps \<noteq> value_prop (props s)
             \<and> editor_getValue s \<noteq> value_prop (props s) then 1 else 0)
   \<and> calls (\<lambda>ev. ev = SetValue (value_prop (props s))) (componentDidUpdate prevProps s)
     = calls (\<lambda>ev. ev = SetValue (value_prop (props s))) s
       + (if editor s \<noteq> None \<and> value_prop prevProps \<noteq> value_prop (props s)
             \<and> editor_getValue s \<noteq> value_prop (props s) then 1 else 0)"
proof (cases "editor s = None")
  case True
  then show ?thesis by (simp add: componentDidUpdate_def)
next
  case False
  have "calls P (componentDidUpdate prevProps s)
     = calls P s
       + (if value_prop prevProps \<noteq> value_prop (props s)
             \<and> editor_getValue s \<noteq> value_prop (props s) then 1 else 0)"
    if "P = is_SetValue \<or> P = (\<lambda>ev. ev = SetValue (value_prop (props s)))" for P
  proof -
    have "calls P (componentDidUpdate prevProps s)
        = calls P (didUpdate_language (didUpdate_head prevProps s))"
      using False that by (auto simp add: componentDidUpdate_def tail_calls)
    also have "\<dots> = calls P (didUpdate_head prevProps s)"
      using that by (auto simp add: language_calls)
    also have "\<dots> = calls P s
       + (if value_prop prevProps \<noteq> value_prop (props s)
             \<and> editor_getValue s \<noteq> value_prop (props s) then 1 else 0)"
      using that by (auto simp add: head_calls)
    finally show ?thesis .
  qed
  from this [of is_SetValue] this [of "\<lambda>ev. ev = SetValue (value_prop (props s))"] False
  show ?thesis by simp
qed

text \<open>
  Mounted with the value \<^verbatim>\<open>a\<close>: the update to \<^verbatim>\<open>b\<close> while the text is still
  \<^verbatim>\<open>a\<close> pushes \<^verbatim>\<open>b\<close> once, the update to \<^verbatim>\<open>a\<close> pushes nothing.
\<close>

theorem value_push_witness:
  "value_prop props0 \<noteq> value_prop (props new_value0)
   \<and> editor_getValue new_value0 = ''a''
   \<and> calls is_SetValue (componentDidUpdate props0 new_value0) = 1
   \<and> calls (\<lambda>ev. ev = SetValue ''b'') (componentDidUpdate props0 new_value0) = 1
   \<and> calls is_SetValue (componentDidUpdate props0 mounted0) = 0"
proof -
  have a: "editor new_value0 \<noteq> None \<and> value_prop props0 = ''a''
      \<and> editor_getValue new_value0 = ''a'' \<and> value_prop (props new_value0) = ''b''
      \<and> trace new_value0 = []"
    by (simp add: new_value0_def mounted0_def props0_def editor0_def model0_def
        editor_getValue_def editor_getModel_def)
  have b: "value_prop (props mounted0) = ''a'' \<and> trace mounted0 = []"
    by (simp add: mounted0_def props0_def)
  show ?thesis
    using value_push [of props0 new_value0] value_push [of props0 mounted0]
    by (simp add: a b calls_def)
qed


lemma head_no_push:
  assumes "\<not> (value_prop prev \<noteq> value_prop (props s) \<and> editor_getValue s \<noteq> value_prop (props s))"
  shows "models (didUpdate_head prev s) = models s"
    and "editor (didUpdate_head prev s) = editor s"
  using assms
  by (auto simp add: didUpdate_head_def Let_def rcp_frame emit_frame uir_frame getters_emit
      getters_uir)

lemma update_unfold:
  "editor s \<noteq> None \<Longrightarrow>
   componentDidUpdate prev s = didUpdate_tail (didUpdate_language (didUpdate_head prev s))"
  by (auto simp add: componentDidUpdate_def)

lemma model_dispose_effect:
  assumes "ModelDispose \<notin> throwing t" "editor_getModel t = Some nu" "nu \<noteq> old"
  shows "calls is_DisposeModel (snd (model_dispose old t)) = calls is_DisposeModel t + 1"
    and "models (snd (model_dispose old t)) old = None"
    and "editor_getModel (snd (model_dispose old t)) = Some nu"
    and "timers (snd (model_dispose old t)) = timers t"
  using assms
  by (auto simp add: model_dispose_def Let_def emit_def upd_editor_def calls_def
      editor_getModel_def split: option.splits)

lemma run_timers_single:
  assumes "timers t = [old]" "ModelDispose \<notin> throwing t" "editor_getModel t = Some nu" "nu \<noteq> old"
  shows "calls is_DisposeModel (run_timers t) = calls is_DisposeModel t + 1
       \<and> models (run_timers t) old = None
       \<and> editor_getModel (run_timers t) = Some nu
       \<and> timers (run_timers t) = []"
proof -
  let ?t = "t\<lparr>timers := []\<rparr>"
  have r: "run_timers t = snd (model_dispose old ?t)"
    using assms(1) by (simp add: run_timers_def run_timer_def)
  have "ModelDispose \<notin> throwing ?t" using assms(2) by simp
  moreover have "editor_getModel ?t = Some nu"
    using assms(3) by (simp add: getters_cong(1) [of ?t t])
  ultimately show ?thesis
    using model_dispose_effect [of ?t nu old] assms(4) by (simp add: r calls_def)
qed

text \<open>
  Claim C2, as amended. Take an update whose language is not empty and differs from the
  language of the editor's current model. If the registry holds a model at the new
  identity (content reference, cell id, language), the update creates no model. Otherwise
  it creates exactly one, at that identity, and shows it in the editor; it disposes no
  model itself but queues the disposal of the old model, once, for a later turn of the
  event loop, and that turn disposes the old model once and leaves the editor on the new
  one; and a cursor position the editor has when the swap begins is the editor's position
  after the update, which is the position it had before the update when the update pushes
  no value.
\<close>

theorem language_change_swaps_model:
  assumes m: "editor_getModel s = Some old"
    and l: "language (props s) \<noteq> []"
    and d: "getLanguageId old s \<noteq> language (props s)"
  defines "nu \<equiv> createCellUri (contentRef (props s)) (id_prop (props s)) (language (props s))"
  shows "(models s nu \<noteq> None \<longrightarrow>
            calls is_CreateModel (componentDidUpdate prevProps s) = calls is_CreateModel s)
       \<and> (models s nu = None \<longrightarrow>
            calls is_CreateModel (componentDidUpdate prevProps s) = calls is_CreateModel s + 1
          \<and> calls (\<lambda>ev. ev = CreateModel nu (value_prop (props s)) (language (props s)))
              (componentDidUpdate prevProps s)
              = calls (\<lambda>ev. ev = CreateModel nu (value_prop (props s)) (language (props s))) s + 1
          \<and> editor_getModel (componentDidUpdate prevProps s) = Some nu
          \<and> calls is_DisposeModel (componentDidUpdate prevProps s) = calls is_DisposeModel s
          \<and> timers (componentDidUpdate prevProps s) = timers s @ [old]
          \<and> (timers s = [] \<and> ModelDispose \<notin> throwing s \<longrightarrow>
                calls is_DisposeModel (run_timers (componentDidUpdate prevProps s))
                  = calls is_DisposeModel s + 1
              \<and> models (run_timers (componentDidUpdate prevProps s)) old = None
              \<and> editor_getModel (run_timers (componentDidUpdate prevProps s)) = Some nu
              \<and> timers (run_timers (componentDidUpdate prevProps s)) = [])
          \<and> (\<forall>p. editor_getPosition (didUpdate_head prevProps s) = Some p \<longrightarrow>
                editor_getPosition (componentDidUpdate prevProps s) = Some p)
          \<and> (\<not> (value_prop prevProps \<noteq> value_prop (props s)
                   \<and> editor_getValue s \<noteq> value_prop (props s)) \<longrightarrow>
                (\<forall>p. editor_getPosition s = Some p \<longrightarrow>
                   editor_getPosition (componentDidUpdate prevProps s) = Some p)))"
proof -
  let ?h = "didUpdate_head prevProps s"
  let ?g = "didUpdate_language ?h"
  let ?u = "componentDidUpdate prevProps s"
  have live: "editor s \<noteq> None" using getModel_SomeD [OF m] by auto
  have u: "?u = didUpdate_tail ?g" using live by (auto simp add: componentDidUpdate_def)
  have hm: "editor_getModel ?h = Some old" using m by (simp add: head_frame)
  have hl: "language (props ?h) \<noteq> []" using l by (simp add: head_frame)
  have hd: "getLanguageId old ?h \<noteq> language (props ?h)" using d by (simp add: head_frame)
  have hnu: "createCellUri (contentRef (props ?h)) (id_prop (props ?h)) (language (props ?h)) = nu"
    by (simp add: nu_def head_frame)
  have hn: "(models ?h nu = None) = (models s nu = None)" by (simp add: head_frame)
  have hc: "calls P ?h = calls P s" if "\<And>v. \<not> P (SetValue v)" "\<not> P IntersectionObserve"
    "\<not> P IntersectionUnobserve" "\<not> P CursorPositionHandler"
    "\<not> P CommandHandler" "\<not> P SetChannels"
    "\<And>l. \<not> P (OnRegisterCompletionProvider l)" "\<And>l. \<not> P (RegisterDefaultCompletionProvider l)" for P
    using that by (simp add: head_calls)
  have tc: "calls P ?u = calls P ?g" if "\<And>a b. \<not> P (UpdateOptions a b)" "\<And>x. \<not> P (Layout x)"
    "\<And>x. \<not> P (ScheduleEditorForLayout x)" "\<not> P Focus" for P
    using that by (simp add: u tail_calls)
  have exists: "models s nu \<noteq> None \<longrightarrow> calls is_CreateModel ?u = calls is_CreateModel s"
  proof
    assume "models s nu \<noteq> None"
    then have "?g = ?h" using hn hnu by (simp add: language_noop)
    then show "calls is_CreateModel ?u = calls is_CreateModel s"
      by (simp add: tc hc)
  qed
  have fresh: "calls is_CreateModel ?u = calls is_CreateModel s + 1
          \<and> calls (\<lambda>ev. ev = CreateModel nu (value_prop (props s)) (language (props s))) ?u
              = calls (\<lambda>ev. ev = CreateModel nu (value_prop (props s)) (language (props s))) s + 1
          \<and> editor_getModel ?u = Some nu
          \<and> calls is_DisposeModel ?u = calls is_DisposeModel s
          \<and> timers ?u = timers s @ [old]
          \<and> (timers s = [] \<and> ModelDispose \<notin> throwing s \<longrightarrow>
                calls is_DisposeModel (run_timers ?u) = calls is_DisposeModel s + 1
              \<and> models (run_timers ?u) old = None
              \<and> editor_getModel (run_timers ?u) = Some nu
              \<and> timers (run_timers ?u) = [])
          \<and> (\<forall>p. editor_getPosition ?h = Some p \<longrightarrow> editor_getPosition ?u = Some p)
          \<and> (\<not> (value_prop prevProps \<noteq> value_prop (props s)
                   \<and> editor_getValue s \<noteq> value_prop (props s)) \<longrightarrow>
                (\<forall>p. editor_getPosition s = Some p \<longrightarrow> editor_getPosition ?u = Some p))"
    if none: "models s nu = None"
  proof -
    have hn': "models ?h (createCellUri (contentRef (props ?h)) (id_prop (props ?h))
        (language (props ?h))) = None"
      using none hn hnu by simp
    note sw = language_swap [OF hm hl hd hn', unfolded hnu]
    have gtrace: "trace ?g = trace ?h
        @ [CreateModel nu (value_prop (props s)) (language (props s)), SetEOL nu LF,
           SetModel nu, SetTimeout old]
        @ (case editor_getPosition ?h of None \<Rightarrow> [] | Some p \<Rightarrow> [SetPosition p])
        @ (if truthy (editorFocused (props s)) \<and> \<not> editor_hasWidgetFocus s then [Focus] else [])"
      using sw(1) by (simp add: head_frame)
    have c1: "calls is_CreateModel ?u = calls is_CreateModel s + 1"
    proof -
      have "calls is_CreateModel ?g = calls is_CreateModel ?h + 1"
        by (simp add: calls_def gtrace split: option.splits)
      then show ?thesis by (simp add: tc hc)
    qed
    have c2: "calls (\<lambda>ev. ev = CreateModel nu (value_prop (props s)) (language (props s))) ?u
        = calls (\<lambda>ev. ev = CreateModel nu (value_prop (props s)) (language (props s))) s + 1"
    proof -
      have "calls (\<lambda>ev. ev = CreateModel nu (value_prop (props s)) (language (props s))) ?g
          = calls (\<lambda>ev. ev = CreateModel nu (value_prop (props s)) (language (props s))) ?h + 1"
        by (simp add: calls_def gtrace split: option.splits)
      then show ?thesis by (simp add: tc hc)
    qed
    have c3: "editor_getModel ?u = Some nu" by (simp add: u tail_frame sw(7))
    have c4: "calls is_DisposeModel ?u = calls is_DisposeModel s"
    proof -
      have "calls is_DisposeModel ?g = calls is_DisposeModel ?h"
        by (simp add: calls_def gtrace split: option.splits)
      then show ?thesis by (simp add: tc hc)
    qed
    have c5: "timers ?u = timers s @ [old]" by (simp add: u tail_frame sw(2) head_frame)
    have neq: "nu \<noteq> old"
      using none getModel_SomeD [OF m] by auto
    have c6: "timers s = [] \<and> ModelDispose \<notin> throwing s \<longrightarrow>
                calls is_DisposeModel (run_timers ?u) = calls is_DisposeModel s + 1
              \<and> models (run_timers ?u) old = None
              \<and> editor_getModel (run_timers ?u) = Some nu
              \<and> timers (run_timers ?u) = []"
    proof
      assume a: "timers s = [] \<and> ModelDispose \<notin> throwing s"
      have "timers ?u = [old]" using a c5 by simp
      moreover have "ModelDispose \<notin> throwing ?u"
        using a by (simp add: u tail_frame sw(5) head_frame)
      ultimately show "calls is_DisposeModel (run_timers ?u) = calls is_DisposeModel s + 1
              \<and> models (run_timers ?u) old = None
              \<and> editor_getModel (run_timers ?u) = Some nu
              \<and> timers (run_timers ?u) = []"
        using run_timers_single [of ?u old nu] c3 neq c4 by simp
    qed
    have c7: "\<forall>p. editor_getPosition ?h = Some p \<longrightarrow> editor_getPosition ?u = Some p"
      by (simp add: u tail_frame sw(8))
    have c8: "\<not> (value_prop prevProps \<noteq> value_prop (props s)
                   \<and> editor_getValue s \<noteq> value_prop (props s)) \<longrightarrow>
                (\<forall>p. editor_getPosition s = Some p \<longrightarrow> editor_getPosition ?u = Some p)"
    proof (intro impI allI)
      fix p
      assume np: "\<not> (value_prop prevProps \<noteq> value_prop (props s)
                   \<and> editor_getValue s \<noteq> value_prop (props s))"
        and p: "editor_getPosition s = Some p"
      have "editor ?h = editor s" using np by (rule head_no_push(2))
      then have "editor_getPosition ?h = Some p" using p by (simp add: editor_getPosition_def)
      then show "editor_getPosition ?u = Some p" using c7 by blast
    qed
    show ?thesis using c1 c2 c3 c4 c5 c6 c7 c8 by blast
  qed
  show ?thesis using exists fresh by blast
qed

text \<open>
  The update of the mounted instance from \<^verbatim>\<open>python\<close> to \<^verbatim>\<open>markdown\<close>: one model is
  created, the disposal of the old one is queued and runs once in the later turn, and the
  cursor stays at line 2, column 3.
\<close>

theorem language_change_swaps_model_witness:
  "editor_getModel to_markdown0 = Some (FileUri ''foo'')
   \<and> language (props to_markdown0) \<noteq> []
   \<and> getLanguageId (FileUri ''foo'') to_markdown0 \<noteq> language (props to_markdown0)
   \<and> calls is_CreateModel (componentDidUpdate props0 to_markdown0) = 1
   \<and> editor_getModel (componentDidUpdate props0 to_markdown0)
       = Some (CellUri ''bar'' ''foo'' ''markdown'')
   \<and> calls is_DisposeModel (componentDidUpdate props0 to_markdown0) = 0
   \<and> timers (componentDidUpdate props0 to_markdown0) = [FileUri ''foo'']
   \<and> calls is_DisposeModel (run_timers (componentDidUpdate props0 to_markdown0)) = 1
   \<and> editor_getPosition (componentDidUpdate props0 to_markdown0) = Some (2, 3)"
proof -
  have m: "editor_getModel to_markdown0 = Some (FileUri ''foo'')"
    by (simp add: to_markdown0_def mounted0_def editor0_def editor_getModel_def)
  have l: "language (props to_markdown0) \<noteq> []"
    by (simp add: to_markdown0_def props0_def)
  have d: "getLanguageId (FileUri ''foo'') to_markdown0 \<noteq> language (props to_markdown0)"
    by (simp add: to_markdown0_def mounted0_def props0_def model0_def getLanguageId_def)
  have nu: "createCellUri (contentRef (props to_markdown0)) (id_prop (props to_markdown0))
      (language (props to_markdown0)) = CellUri ''bar'' ''foo'' ''markdown''"
    by (simp add: to_markdown0_def props0_def createCellUri_def)
  have n: "models to_markdown0 (CellUri ''bar'' ''foo'' ''markdown'') = None"
    by (simp add: to_markdown0_def mounted0_def)
  have t: "timers to_markdown0 = [] \<and> ModelDispose \<notin> throwing to_markdown0
      \<and> trace to_markdown0 = []"
    by (simp add: to_markdown0_def mounted0_def)
  have v: "value_prop props0 = value_prop (props to_markdown0)"
    by (simp add: to_markdown0_def)
  have p: "editor_getPosition (didUpdate_head props0 to_markdown0) = Some (2, 3)"
    using head_no_push(2) [of props0 to_markdown0] v
    by (simp add: editor_getPosition_def) (simp add: to_markdown0_def mounted0_def editor0_def)
  note sw = language_change_swaps_model [OF m l d, of props0, unfolded nu]
  from sw n p t show ?thesis
    using m l d by (simp add: calls_def)
qed

text \<open>
  Claim C2 as stated fails for the update to the empty language: it differs from the
  language of the current model and the registry holds no model at the new identity, yet
  no model is created, since the update tests that the language is not empty.
\<close>

theorem empty_language_counterexample:
  "editor_getModel no_language0 = Some (FileUri ''foo'')
   \<and> getLanguageId (FileUri ''foo'') no_language0 \<noteq> language (props no_language0)
   \<and> models no_language0
        (createCellUri (contentRef (props no_language0)) (id_prop (props no_language0))
           (language (props no_language0))) = None
   \<and> calls is_CreateModel (componentDidUpdate props0 no_language0) = 0"
proof -
  have m: "editor_getModel no_language0 = Some (FileUri ''foo'')"
    by (simp add: no_language0_def mounted0_def editor0_def editor_getModel_def)
  have l: "language (props no_language0) = []"
    by (simp add: no_language0_def)
  have d: "getLanguageId (FileUri ''foo'') no_language0 \<noteq> language (props no_language0)"
    by (simp add: no_language0_def mounted0_def model0_def getLanguageId_def)
  have n: "models no_language0
        (createCellUri (contentRef (props no_language0)) (id_prop (props no_language0))
           (language (props no_language0))) = None"
    by (simp add: no_language0_def mounted0_def props0_def createCellUri_def)
  have live: "editor no_language0 \<noteq> None" by (simp add: no_language0_def mounted0_def)
  have t: "trace no_language0 = []" by (simp add: no_language0_def mounted0_def)
  let ?h = "didUpdate_head props0 no_language0"
  have "language (props ?h) = []" using l by (simp add: head_frame)
  then have g: "didUpdate_language ?h = ?h" by (simp add: language_noop)
  have "calls is_CreateModel (componentDidUpdate props0 no_language0) = calls is_CreateModel ?h"
    by (simp add: update_unfold [OF live] g tail_calls)
  also have "\<dots> = calls is_CreateModel no_language0" by (simp add: head_calls)
  also have "\<dots> = 0" by (simp add: calls_def t)
  finally show ?thesis using m d n by simp
qed

text \<open>
  Claim C3. The language changes from \<^verbatim>\<open>python\<close> to \<^verbatim>\<open>markdown\<close> while the
  registry already holds a model at the cell's markdown uri, with line ending CRLF. The
  update only tests that this model exists: it neither sets its line ending to LF nor
  shows it in the editor, which keeps the \<^verbatim>\<open>python\<close> model.
\<close>

theorem existing_model_is_not_installed:
  "editor_getModel existing0 = Some (FileUri ''foo'')
   \<and> language (props existing0) = ''markdown''
   \<and> getLanguageId (FileUri ''foo'') existing0 = ''python''
   \<and> createCellUri (contentRef (props existing0)) (id_prop (props existing0))
        (language (props existing0)) = CellUri ''bar'' ''foo'' ''markdown''
   \<and> models existing0 (CellUri ''bar'' ''foo'' ''markdown'') = Some markdown_model0
   \<and> editor_getModel (componentDidUpdate props0 existing0) = Some (FileUri ''foo'')
   \<and> getLanguageId (FileUri ''foo'') (componentDidUpdate props0 existing0) = ''python''
   \<and> models (componentDidUpdate props0 existing0) (CellUri ''bar'' ''foo'' ''markdown'')
       = Some markdown_model0
   \<and> m_eol markdown_model0 = CRLF
   \<and> calls (\<lambda>ev. ev = SetModel (CellUri ''bar'' ''foo'' ''markdown''))
        (componentDidUpdate props0 existing0) = 0
   \<and> calls (\<lambda>ev. ev = SetEOL (CellUri ''bar'' ''foo'' ''markdown'') LF)
        (componentDidUpdate props0 existing0) = 0"
proof -
  have m: "editor_getModel existing0 = Some (FileUri ''foo'')"
    by (simp add: existing0_def mounted0_def editor0_def editor_getModel_def)
  have l: "language (props existing0) = ''markdown''"
    by (simp add: existing0_def)
  have d: "getLanguageId (FileUri ''foo'') existing0 = ''python''"
    by (simp add: existing0_def mounted0_def model0_def getLanguageId_def)
  have nu: "createCellUri (contentRef (props existing0)) (id_prop (props existing0))
        (language (props existing0)) = CellUri ''bar'' ''foo'' ''markdown''"
    by (simp add: existing0_def props0_def createCellUri_def)
  have n: "models existing0 (CellUri ''bar'' ''foo'' ''markdown'') = Some markdown_model0"
    by (simp add: existing0_def)
  have live: "editor existing0 \<noteq> None" by (simp add: existing0_def mounted0_def)
  have t: "trace existing0 = []" by (simp add: existing0_def mounted0_def)
  have v: "value_prop props0 = value_prop (props existing0)" by (simp add: existing0_def)
  let ?h = "didUpdate_head props0 existing0"
  let ?u = "componentDidUpdate props0 existing0"
  have hm: "models ?h = models existing0" using head_no_push(1) [of props0 existing0] v by simp
  have "models ?h (createCellUri (contentRef (props ?h)) (id_prop (props ?h))
        (language (props ?h))) \<noteq> None"
    using n nu by (simp add: hm head_frame)
  then have g: "didUpdate_language ?h = ?h" using language_noop [of ?h] by blast
  have u: "?u = didUpdate_tail ?h" by (simp add: update_unfold [OF live] g)
  have a: "editor_getModel ?u = Some (FileUri ''foo'')"
    using m by (simp add: u tail_frame head_frame)
  have b: "models ?u = models existing0" by (simp add: u tail_frame hm)
  have c: "getLanguageId (FileUri ''foo'') ?u = ''python''"
    using d by (simp add: getLanguageId_def b)
  have e: "calls P ?u = 0" if "P = (\<lambda>ev. ev = SetModel (CellUri ''bar'' ''foo'' ''markdown''))
      \<or> P = (\<lambda>ev. ev = SetEOL (CellUri ''bar'' ''foo'' ''markdown'') LF)" for P
  proof -
    have "calls P ?u = calls P ?h" using that by (auto simp add: u tail_calls)
    also have "\<dots> = calls P existing0" using that by (auto simp add: head_calls)
    finally show ?thesis by (simp add: calls_def t)
  qed
  have f: "m_eol markdown_model0 = CRLF" by (simp add: markdown_model0_def)
  show ?thesis
    using m l d nu n a b c f e [of "\<lambda>ev. ev = SetModel (CellUri ''bar'' ''foo'' ''markdown'')"]
      e [of "\<lambda>ev. ev = SetEOL (CellUri ''bar'' ''foo'' ''markdown'') LF"]
    by simp
qed

subsection \<open>Focus\<close>

lemma language_focus:
  "calls is_Focus (didUpdate_language s)
     = calls is_Focus s
       + (if (\<exists>old. editor_getModel s = Some old \<and> language (props s) \<noteq> []
                 \<and> getLanguageId old s \<noteq> language (props s)
                 \<and> models s (createCellUri (contentRef (props s)) (id_prop (props s))
                      (language (props s))) = None)
             \<and> truthy (editorFocused (props s)) \<and> \<not> editor_hasWidgetFocus s then 1 else 0)"
  "editor_hasWidgetFocus (didUpdate_language s)
     = (editor_hasWidgetFocus s
        \<or> (\<exists>old. editor_getModel s = Some old \<and> language (props s) \<noteq> []
                 \<and> getLanguageId old s \<noteq> language (props s)
                 \<and> models s (createCellUri (contentRef (props s)) (id_prop (props s))
                      (language (props s))) = None)
           \<and> truthy (editorFocused (props s)))"
  "props (didUpdate_language s) = props s"
  "editorContainerRef (didUpdate_language s) = editorContainerRef s"
proof -
  let ?sw = "\<exists>old. editor_getModel s = Some old \<and> language (props s) \<noteq> []
                 \<and> getLanguageId old s \<noteq> language (props s)
                 \<and> models s (createCellUri (contentRef (props s)) (id_prop (props s))
                      (language (props s))) = None"
  have "(calls is_Focus (didUpdate_language s)
     = calls is_Focus s
       + (if ?sw \<and> truthy (editorFocused (props s)) \<and> \<not> editor_hasWidgetFocus s then 1 else 0))
    \<and> (editor_hasWidgetFocus (didUpdate_language s)
     = (editor_hasWidgetFocus s \<or> ?sw \<and> truthy (editorFocused (props s))))
    \<and> props (didUpdate_language s) = props s
    \<and> editorContainerRef (didUpdate_language s) = editorContainerRef s"
  proof (cases ?sw)
    case True
    then obtain old where o: "editor_getModel s = Some old" "language (props s) \<noteq> []"
      "getLanguageId old s \<noteq> language (props s)"
      "models s (createCellUri (contentRef (props s)) (id_prop (props s)) (language (props s))) = None"
      by blast
    note sw = language_swap [OF o]
    have "calls is_Focus (didUpdate_language s)
       = calls is_Focus s
         + (if truthy (editorFocused (props s)) \<and> \<not> editor_hasWidgetFocus s then 1 else 0)"
      by (simp add: calls_def sw(1) split: option.splits)
    then show ?thesis using True sw(3) sw(4) sw(9) by simp
  next
    case False
    then have "didUpdate_language s = s" using language_noop [of s] by (cases "editor_getModel s") auto
    then show ?thesis using False by auto
  qed
  then show "calls is_Focus (didUpdate_language s)
     = calls is_Focus s
       + (if ?sw \<and> truthy (editorFocused (props s)) \<and> \<not> editor_hasWidgetFocus s then 1 else 0)"
    and "editor_hasWidgetFocus (didUpdate_language s)
     = (editor_hasWidgetFocus s \<or> ?sw \<and> truthy (editorFocused (props s)))"
    and "props (didUpdate_language s) = props s"
    and "editorContainerRef (didUpdate_language s) = editorContainerRef s"
    by blast+
qed

lemma update_focus:
  "calls is_Focus (componentDidUpdate prev s)
     = calls is_Focus s
       + (if editor s \<noteq> None \<and> truthy (editorFocused (props s)) \<and> \<not> editor_hasWidgetFocus s
             \<and> ((case editorContainerRef s of None \<Rightarrow> False | Some c \<Rightarrow> offsetParent c)
                \<or> (\<exists>old. editor_getModel s = Some old \<and> language (props s) \<noteq> []
                      \<and> getLanguageId old s \<noteq> language (props s)
                      \<and> models s (createCellUri (contentRef (props s)) (id_prop (props s))
                           (language (props s))) = None))
          then 1 else 0)"
proof (cases "editor s = None")
  case True
  then show ?thesis by (simp add: componentDidUpdate_def)
next
  case False
  let ?h = "didUpdate_head prev s"
  let ?g = "didUpdate_language ?h"
  have h: "calls is_Focus ?h = calls is_Focus s" by (simp add: head_calls)
  have t: "calls is_Focus (didUpdate_tail ?g)
      = calls is_Focus ?g
        + (if (case editorContainerRef ?g of None \<Rightarrow> False | Some c \<Rightarrow> offsetParent c)
              \<and> truthy (editorFocused (props ?g)) \<and> \<not> editor_hasWidgetFocus ?g then 1 else 0)"
    by (simp add: tail_calls)
  show ?thesis
    using False
    by (simp only: update_unfold [OF False] t language_focus h head_frame) auto
qed


lemma rdf_frame:
  "props (registerDocumentFormatter s) = props s"
  "editor (registerDocumentFormatter s) = editor s"
  "models (registerDocumentFormatter s) = models s"
  "freshEditor (registerDocumentFormatter s) = freshEditor s"
  "editorContainerRef (registerDocumentFormatter s) = editorContainerRef s"
  "(\<And>l. \<not> P (OnRegisterDocumentFormattingEditProvider l)) \<Longrightarrow>
     calls P (registerDocumentFormatter s) = calls P s"
  by (simp_all add: registerDocumentFormatter_def emit_def calls_def)

lemma fresh_frame:
  "freshEditor (emit ev s) = freshEditor s"
  "freshEditor (updateIntersectRegistration s) = freshEditor s"
  "freshEditor (registerCompletionProvider s) = freshEditor s"
  "freshEditor (createModel v l u s) = freshEditor s"
  "freshEditor (model_setEOL u e s) = freshEditor s"
  by (simp_all add: emit_def updateIntersectRegistration_def registerCompletionProvider_def
      registerDefaultCompletionProvider_def createModel_def model_setEOL_def)

lemma model_ops_frame:
  "props (createModel v l u s) = props s"
  "props (model_setEOL u e s) = props s"
  "props (monaco_create u s) = props s"
  "calls P (createModel v l u s) = calls P s + (if P (CreateModel u v l) then 1 else 0)"
  "calls P (model_setEOL u e s) = calls P s + (if P (SetEOL u e) then 1 else 0)"
  "calls P (monaco_create u s) = calls P s + (if P (CreateEditor (Some u)) then 1 else 0)"
  "editor_hasWidgetFocus (monaco_create u s) = e_hasWidgetFocus (freshEditor s)"
  "editor (monaco_create u s) \<noteq> None"
  by (simp_all add: createModel_def model_setEOL_def monaco_create_def emit_def calls_def
      editor_hasWidgetFocus_def)

lemma toggle_frame:
  "props (toggleEditorOptions b s) = props s"
  "editor (toggleEditorOptions b s) = editor s"
  "models (toggleEditorOptions b s) = models s"
  "(\<And>x. \<not> P (ToggleEditorOptions x)) \<Longrightarrow> calls P (toggleEditorOptions b s) = calls P s"
  by (simp_all add: toggleEditorOptions_def emit_def calls_def)

lemma cursor_listener_frame:
  "props (registerCursorListener s) = props s"
  "\<not> P OnCursorPositionChange \<Longrightarrow> \<not> P AddCursorListener \<Longrightarrow>
     calls P (registerCursorListener s) = calls P s"
  by (simp_all add: registerCursorListener_def emit_def calls_def Let_def)

lemma calls_field_update:
  "calls P (s\<lparr>mouseMoveListener := a\<rparr>) = calls P s"
  "calls P (s\<lparr>resizeObserved := b\<rparr>) = calls P s"
  by (simp_all add: calls_def)

lemma mount_focus:
  "calls is_Focus (componentDidMount s)
     = calls is_Focus s
       + (if editorContainerRef s \<noteq> None \<and> truthy (editorFocused (props s))
             \<and> \<not> e_hasWidgetFocus (freshEditor s) then 1 else 0)"
proof (cases "editorContainerRef s")
  case None
  then show ?thesis by (simp add: componentDidMount_def)
next
  case (Some c)
  then show ?thesis
    by (simp add: componentDidMount_def Let_def calls_field_update calls_emit
        requestLayout_calls requestLayout_frame cursor_listener_frame focus_frame
        toggle_frame getters_cong(4) [of "toggleEditorOptions b x" x for b x]
        emit_frame getters_emit model_ops_frame fresh_frame rdf_frame rcp_frame rcp_calls
        uir_frame uir_calls)
qed


text \<open>
  Claim C6. Mounting calls \<^verbatim>\<open>focus\<close> on the native editor once when the container
  exists, \<^verbatim>\<open>editorFocused\<close> is true and the editor just created does not hold widget
  focus, and never otherwise. An update calls it once when there is a live editor,
  \<^verbatim>\<open>editorFocused\<close> is true, the editor does not hold widget focus, and either the
  container has an offset parent or the update swaps the model for a new language; and
  never otherwise. So with \<^verbatim>\<open>editorFocused\<close> false neither mounting nor an update calls
  \<^verbatim>\<open>focus\<close>, and neither does when the editor already holds widget focus.
\<close>

theorem focus_only_when_requested:
  "calls is_Focus (componentDidMount s)
     = calls is_Focus s
       + (if editorContainerRef s \<noteq> None \<and> truthy (editorFocused (props s))
             \<and> \<not> e_hasWidgetFocus (freshEditor s) then 1 else 0)
   \<and> calls is_Focus (componentDidUpdate prevProps s)
     = calls is_Focus s
       + (if editor s \<noteq> None \<and> truthy (editorFocused (props s)) \<and> \<not> editor_hasWidgetFocus s
             \<and> ((case editorContainerRef s of None \<Rightarrow> False | Some c \<Rightarrow> offsetParent c)
                \<or> (\<exists>old. editor_getModel s = Some old \<and> language (props s) \<noteq> []
                      \<and> getLanguageId old s \<noteq> language (props s)
                      \<and> models s (createCellUri (contentRef (props s)) (id_prop (props s))
                           (language (props s))) = None))
          then 1 else 0)
   \<and> (\<not> truthy (editorFocused (props s)) \<longrightarrow>
        calls is_Focus (componentDidMount s) = calls is_Focus s
        \<and> calls is_Focus (componentDidUpdate prevProps s) = calls is_Focus s)
   \<and> (e_hasWidgetFocus (freshEditor s) \<longrightarrow>
        calls is_Focus (componentDidMount s) = calls is_Focus s)
   \<and> (editor_hasWidgetFocus s \<longrightarrow>
        calls is_Focus (componentDidUpdate prevProps s) = calls is_Focus s)"
  by (simp add: mount_focus update_focus)

text \<open>
  Mounting with \<^verbatim>\<open>editorFocused\<close> true: one call when widget focus is absent, none
  when it is present; none with \<^verbatim>\<open>editorFocused\<close> false; and one call in an update
  of the mounted instance.
\<close>

theorem focus_only_when_requested_witness:
  "truthy (editorFocused (props unmounted0)) \<and> \<not> e_hasWidgetFocus (freshEditor unmounted0)
   \<and> calls is_Focus (componentDidMount unmounted0) = 1
   \<and> calls is_Focus
        (componentDidMount (unmounted0\<lparr>freshEditor := editor0\<lparr>e_hasWidgetFocus := True\<rparr>\<rparr>)) = 0
   \<and> calls is_Focus
        (componentDidMount (unmounted0\<lparr>props := props0\<lparr>editorFocused := Some False\<rparr>\<rparr>)) = 0
   \<and> calls is_Focus (componentDidUpdate props0 mounted0) = 1"
proof -
  have a: "truthy (editorFocused (props unmounted0)) \<and> \<not> e_hasWidgetFocus (freshEditor unmounted0)
      \<and> editorContainerRef unmounted0 \<noteq> None \<and> trace unmounted0 = []"
    by (simp add: unmounted0_def mounted0_def props0_def editor0_def truthy_def)
  have b: "\<not> truthy (editorFocused (props0\<lparr>editorFocused := Some False\<rparr>))"
    by (simp add: truthy_def)
  have c: "editor mounted0 \<noteq> None \<and> truthy (editorFocused (props mounted0))
      \<and> \<not> editor_hasWidgetFocus mounted0
      \<and> (case editorContainerRef mounted0 of None \<Rightarrow> False | Some c \<Rightarrow> offsetParent c)
      \<and> trace mounted0 = []"
    by (simp add: mounted0_def props0_def editor0_def container0_def truthy_def
        editor_hasWidgetFocus_def)
  have m1: "calls is_Focus (componentDidMount unmounted0) = 1"
    using focus_only_when_requested [of unmounted0 props0] a by (simp add: calls_def)
  have m2: "calls is_Focus
        (componentDidMount (unmounted0\<lparr>freshEditor := editor0\<lparr>e_hasWidgetFocus := True\<rparr>\<rparr>)) = 0"
    using focus_only_when_requested
      [of "unmounted0\<lparr>freshEditor := editor0\<lparr>e_hasWidgetFocus := True\<rparr>\<rparr>" props0] a
    by (simp add: calls_def)
  have m3: "calls is_Focus
        (componentDidMount (unmounted0\<lparr>props := props0\<lparr>editorFocused := Some False\<rparr>\<rparr>)) = 0"
    using focus_only_when_requested
      [of "unmounted0\<lparr>props := props0\<lparr>editorFocused := Some False\<rparr>\<rparr>" props0] a b
    by (simp add: calls_def)
  have u: "calls is_Focus (componentDidUpdate props0 mounted0) = 1"
    using focus_only_when_requested [of mounted0 props0] c by (simp add: calls_def)
  show ?thesis using a m1 m2 m3 u by simp
qed

subsection \<open>Unmounting\<close>






subsection \<open>Parameter-hint widgets\<close>

text \<open>Splitting at spaces what was joined with spaces gives the words back.\<close>

lemma split_space_not_Nil: "split_space s \<noteq> []"
  by (induction s) (auto split: list.splits)

lemma split_space_no_space: "t \<in> set (split_space s) \<Longrightarrow> CHR '' '' \<notin> set t"
proof (induction s arbitrary: t)
  case Nil
  then show ?case by simp
next
  case (Cons c cs)
  show ?case
  proof (cases "c = CHR '' ''")
    case True
    with Cons show ?thesis by auto
  next
    case False
    obtain u us where u: "split_space cs = u # us"
      using split_space_not_Nil [of cs] by (cases "split_space cs") auto
    with False Cons.prems have "t = c # u \<or> t \<in> set us" by auto
    then show ?thesis
      using False Cons.IH [of u] Cons.IH [of t] u by auto
  qed
qed

lemma split_space_word: "CHR '' '' \<notin> set t \<Longrightarrow> split_space t = [t]"
  by (induction t) auto

lemma split_space_append:
  "CHR '' '' \<notin> set t \<Longrightarrow> split_space (t @ CHR '' '' # r) = t # split_space r"
  by (induction t) auto

lemma split_join:
  "ts \<noteq> [] \<Longrightarrow> (\<And>t. t \<in> set ts \<Longrightarrow> CHR '' '' \<notin> set t) \<Longrightarrow> split_space (join_space ts) = ts"
proof (induction ts rule: join_space.induct)
  case 1
  then show ?case by simp
next
  case (2 t)
  then show ?case by (simp add: split_space_word)
next
  case (3 t v va)
  then show ?case by (simp add: split_space_append)
qed

lemma visible_stripped:
  "''visible'' \<notin> set (split_space (join_space (filter (\<lambda>cls. cls \<noteq> ''visible'') (split_space s))))"
proof (cases "filter (\<lambda>cls. cls \<noteq> ''visible'') (split_space s) = []")
  case True
  then show ?thesis by simp
next
  case False
  have "\<And>t. t \<in> set (filter (\<lambda>cls. cls \<noteq> ''visible'') (split_space s)) \<Longrightarrow> CHR '' '' \<notin> set t"
    using split_space_no_space [of _ s] by auto
  from split_join [OF False this] show ?thesis by simp
qed

lemma hide_widget_hidden:
  "\<not> has_class ''visible'' (hide_widget w)" "style_visibility (hide_widget w) = ''hidden''"
  using visible_stripped [of "className w"]
  by (simp_all add: hide_widget_def has_class_def Let_def)

lemma matches_class: "matches (CHR ''.'' # cls) e = has_class cls e"
  by (simp add: matches_def)

lemma hideWidgets_single:
  "hideWidgets p [sel] = p\<lparr>descendants := map (\<lambda>w. if matches sel w then hide_widget w else w) (descendants p)\<rparr>"
  by (simp add: hideWidgets_def)

text \<open>
  On a widget that carries the class \<^verbatim>\<open>parameter-hints-widget\<close>, the inner loop of
  \<^verbatim>\<open>hideWidgets\<close> removes the class \<^verbatim>\<open>visible\<close> and keeps every other class, in
  order; it sets the inline visibility to \<^verbatim>\<open>hidden\<close> and leaves the bounding box.
\<close>

lemma hide_widget_classes:
  assumes "has_class ''parameter-hints-widget'' e"
  shows "split_space (className (hide_widget e))
           = filter (\<lambda>cls. cls \<noteq> ''visible'') (split_space (className e))"
    and "style_visibility (hide_widget e) = ''hidden''"
    and "boundingClientRect (hide_widget e) = boundingClientRect e"
proof -
  let ?ts = "filter (\<lambda>cls. cls \<noteq> ''visible'') (split_space (className e))"
  have "''parameter-hints-widget'' \<in> set ?ts"
    using assms by (simp add: has_class_def)
  then have ne: "?ts \<noteq> []" by (metis empty_iff list.set(1))
  have "\<And>t. t \<in> set ?ts \<Longrightarrow> CHR '' '' \<notin> set t"
    using split_space_no_space [of _ "className e"] by auto
  from split_join [OF ne this]
  show "split_space (className (hide_widget e)) = ?ts"
    by (simp add: hide_widget_def Let_def)
  show "style_visibility (hide_widget e) = ''hidden''"
    by (simp add: hide_widget_def Let_def)
  show "boundingClientRect (hide_widget e) = boundingClientRect e"
    by (simp add: hide_widget_def Let_def)
qed

text \<open>
  What the handler does on any page, when the instance's container is mounted and \<open>w\<close> is
  the first element of the document with the class \<^verbatim>\<open>parameter-hints-widget\<close>. The
  pointer is inside when it lies in the bounding box of \<open>w\<close> widened by 5 pixels on every
  side, borders included. On a pointer move outside, the page afterwards is the page
  before with \<open>hide_widget\<close> applied to exactly the elements with that class below the
  containers other than the instance's own. On a pointer move inside, nothing changes.
  Whether \<open>w\<close> is shown plays no part.
\<close>

lemma handler_decided_by_first_widget:
  assumes c: "editorContainerRef s = Some c"
    and w: "querySelector ''.parameter-hints-widget'' (document s) = Some w"
  shows "coordsInsideElement (Some w) x y HOVER_BOUND_DEFAULT_PADDING
           = (rect_left (boundingClientRect w) - 5 \<le> x \<and> x \<le> rect_right (boundingClientRect w) + 5
              \<and> rect_top (boundingClientRect w) - 5 \<le> y \<and> y \<le> rect_bottom (boundingClientRect w) + 5)"
    and "\<not> coordsInsideElement (Some w) x y HOVER_BOUND_DEFAULT_PADDING \<Longrightarrow>
         handleCoordsOutsideWidgetActiveRegion x y s
           = s\<lparr>document :=
                 map (\<lambda>p. if Some (node p) \<noteq> parentElement c
                           then p\<lparr>descendants :=
                                    map (\<lambda>e. if has_class ''parameter-hints-widget'' e
                                              then hide_widget e else e)
                                      (descendants p)\<rparr>
                           else p)
                   (document s)\<rparr>"
    and "coordsInsideElement (Some w) x y HOVER_BOUND_DEFAULT_PADDING \<Longrightarrow>
         handleCoordsOutsideWidgetActiveRegion x y s = s"
proof -
  show "coordsInsideElement (Some w) x y HOVER_BOUND_DEFAULT_PADDING
           = (rect_left (boundingClientRect w) - 5 \<le> x \<and> x \<le> rect_right (boundingClientRect w) + 5
              \<and> rect_top (boundingClientRect w) - 5 \<le> y \<and> y \<le> rect_bottom (boundingClientRect w) + 5)"
    by (simp add: coordsInsideElement_def HOVER_BOUND_DEFAULT_PADDING_def Let_def)
  show "handleCoordsOutsideWidgetActiveRegion x y s = s"
    if "coordsInsideElement (Some w) x y HOVER_BOUND_DEFAULT_PADDING"
    using w that by (simp add: handleCoordsOutsideWidgetActiveRegion_def)
  show "handleCoordsOutsideWidgetActiveRegion x y s
           = s\<lparr>document :=
                 map (\<lambda>p. if Some (node p) \<noteq> parentElement c
                           then p\<lparr>descendants :=
                                    map (\<lambda>e. if has_class ''parameter-hints-widget'' e
                                              then hide_widget e else e)
                                      (descendants p)\<rparr>
                           else p)
                   (document s)\<rparr>"
    if "\<not> coordsInsideElement (Some w) x y HOVER_BOUND_DEFAULT_PADDING"
  proof -
    have "handleCoordsOutsideWidgetActiveRegion x y s = hideAllOtherParameterWidgets s"
      using w that by (simp add: handleCoordsOutsideWidgetActiveRegion_def)
    then show ?thesis
      using c by (simp add: hideAllOtherParameterWidgets_def hideWidgets_single matches_class)
  qed
qed

lemma first_editor0_page:
  "editorContainerRef first_editor0 = Some (container0\<lparr>parentElement := Some 1\<rparr>)"
  "document first_editor0
     = [\<lparr>node = 1, descendants = [widget_hidden]\<rparr>, \<lparr>node = 2, descendants = [widget_visible]\<rparr>]"
  "querySelector ''.parameter-hints-widget'' (document first_editor0) = Some widget_hidden"
  by (simp_all add: first_editor0_def mounted0_def document0_def querySelector_def matches_def
      has_class_def widget_hidden_def widget_visible_def)

text \<open>
  Claim C7. On a page of two editors, the popup that is shown belongs to the second editor,
  and the first element with the class \<^verbatim>\<open>parameter-hints-widget\<close> is the first
  editor's own widget, which is not shown. The first editor's handler measures the pointer
  against that first element, not against the popup that is shown: at (3, 3), strictly
  outside the widened box of the shown popup, it hides nothing; at (150, 150), inside that
  box, it hides the shown popup. The handler's documentation speaks of "the currently
  active parameter widget", and \<^verbatim>\<open>hideParameterWidget\<close> finds it by the class
  \<^verbatim>\<open>visible\<close>; the selector of the handler leaves that class out.
\<close>

theorem shown_popup_is_not_consulted:
  "has_class ''visible'' widget_visible \<and> \<not> has_class ''visible'' widget_hidden
   \<and> querySelector ''.parameter-hints-widget'' (document first_editor0) = Some widget_hidden
   \<and> document first_editor0
       = [\<lparr>node = 1, descendants = [widget_hidden]\<rparr>, \<lparr>node = 2, descendants = [widget_visible]\<rparr>]
   \<and> editorContainerRef first_editor0 = Some (container0\<lparr>parentElement := Some 1\<rparr>)
   \<and> \<not> coordsInsideElement (Some widget_visible) 3 3 HOVER_BOUND_DEFAULT_PADDING
   \<and> document (handleCoordsOutsideWidgetActiveRegion 3 3 first_editor0) = document first_editor0
   \<and> coordsInsideElement (Some widget_visible) 150 150 HOVER_BOUND_DEFAULT_PADDING
   \<and> document (handleCoordsOutsideWidgetActiveRegion 150 150 first_editor0)
       = [\<lparr>node = 1, descendants = [widget_hidden]\<rparr>,
          \<lparr>node = 2, descendants =
             [widget_visible\<lparr>className := ''editor-widget parameter-hints-widget'',
                             style_visibility := ''hidden''\<rparr>]\<rparr>]"
proof -
  have v: "has_class ''visible'' widget_visible \<and> \<not> has_class ''visible'' widget_hidden"
    by (simp add: has_class_def widget_visible_def widget_hidden_def)
  have o: "\<not> coordsInsideElement (Some widget_visible) 3 3 HOVER_BOUND_DEFAULT_PADDING"
    by (simp add: coordsInsideElement_def HOVER_BOUND_DEFAULT_PADDING_def widget_visible_def)
  have i: "coordsInsideElement (Some widget_visible) 150 150 HOVER_BOUND_DEFAULT_PADDING"
    by (simp add: coordsInsideElement_def HOVER_BOUND_DEFAULT_PADDING_def widget_visible_def)
  have h3: "coordsInsideElement (Some widget_hidden) 3 3 HOVER_BOUND_DEFAULT_PADDING"
    by (simp add: coordsInsideElement_def HOVER_BOUND_DEFAULT_PADDING_def widget_hidden_def)
  have h150: "\<not> coordsInsideElement (Some widget_hidden) 150 150 HOVER_BOUND_DEFAULT_PADDING"
    by (simp add: coordsInsideElement_def HOVER_BOUND_DEFAULT_PADDING_def widget_hidden_def)
  have a: "document (handleCoordsOutsideWidgetActiveRegion 3 3 first_editor0) = document first_editor0"
    using h3 by (simp add: handleCoordsOutsideWidgetActiveRegion_def first_editor0_page(3))
  have hv: "hide_widget widget_visible
      = widget_visible\<lparr>className := ''editor-widget parameter-hints-widget'',
                       style_visibility := ''hidden''\<rparr>"
    by (simp add: hide_widget_def widget_visible_def Let_def)
  have mv: "matches ''.parameter-hints-widget'' widget_visible"
    by (simp add: matches_def has_class_def widget_visible_def)
  have b: "document (handleCoordsOutsideWidgetActiveRegion 150 150 first_editor0)
       = [\<lparr>node = 1, descendants = [widget_hidden]\<rparr>,
          \<lparr>node = 2, descendants =
             [widget_visible\<lparr>className := ''editor-widget parameter-hints-widget'',
                             style_visibility := ''hidden''\<rparr>]\<rparr>]"
  proof -
    have "handleCoordsOutsideWidgetActiveRegion 150 150 first_editor0
        = hideAllOtherParameterWidgets first_editor0"
      using h150 by (simp add: handleCoordsOutsideWidgetActiveRegion_def first_editor0_page(3))
    then show ?thesis
      using mv
      by (simp add: hideAllOtherParameterWidgets_def first_editor0_page(1) first_editor0_page(2)
          hideWidgets_single hv)
  qed
  show ?thesis
    using v o i a b first_editor0_page(1) first_editor0_page(2) first_editor0_page(3) by simp
qed

end
